theory Spec2Isabelle
  imports Main "HOL-Library.Word"
begin

section \<open>Go library functions used by log.go\<close>

text \<open>
  The package is a facade over logrus. Strings are Go byte strings, modelled as
  \<open>string\<close> (a list of bytes). The functions of package \<open>strings\<close> that
  \<open>Format\<close> calls are written out here after their Go documentation; they are
  not part of the repository.
\<close>

text \<open>\<open>strings.HasPrefix(s, p)\<close>.\<close>

fun HasPrefix :: "string \<Rightarrow> string \<Rightarrow> bool" where
  "HasPrefix s [] = True"
| "HasPrefix [] (p # ps) = False"
| "HasPrefix (c # cs) (p # ps) = (c = p \<and> HasPrefix cs ps)"

text \<open>
  \<open>strings.Index(s, sep)\<close>: the position of the first occurrence of \<open>sep\<close> in
  \<open>s\<close>; Go's \<open>-1\<close> is \<open>None\<close>.
\<close>

fun Index :: "string \<Rightarrow> string \<Rightarrow> nat option" where
  "Index [] sep = (if sep = [] then Some 0 else None)"
| "Index (c # cs) sep =
     (if HasPrefix (c # cs) sep then Some 0 else map_option Suc (Index cs sep))"

lemma HasPrefix_length: "HasPrefix s p \<Longrightarrow> length p \<le> length s"
  by (induction s p rule: HasPrefix.induct) auto

lemma Index_bound: "Index s sep = Some m \<Longrightarrow> m + length sep \<le> length s"
proof (induction s arbitrary: m)
  case Nil
  then show ?case by (simp split: if_splits)
next
  case (Cons c cs)
  show ?case
  proof (cases "HasPrefix (c # cs) sep")
    case True
    with Cons.prems HasPrefix_length [OF True] show ?thesis by simp
  next
    case False
    with Cons.prems obtain k where k: "Index cs sep = Some k" "m = Suc k" by auto
    from Cons.IH [OF k(1)] k(2) show ?thesis by simp
  qed
qed

text \<open>
  \<open>strings.Split(s, sep)\<close>: with a non-empty separator, the pieces of \<open>s\<close>
  between the successive first occurrences of \<open>sep\<close>, the rest of the string last;
  with an empty separator, \<open>s\<close> exploded into its characters (bytes here, UTF-8
  sequences in Go; log.go only splits at \<open>"T"\<close> and \<open>" "\<close>).
\<close>

function Split :: "string \<Rightarrow> string \<Rightarrow> string list" where
  "Split s sep =
     (if sep = [] then map (\<lambda>c. [c]) s
      else case Index s sep of
             None \<Rightarrow> [s]
           | Some m \<Rightarrow> take m s # Split (drop (m + length sep) s) sep)"
  by pat_completeness auto
termination
proof (relation "measure (\<lambda>(s, sep). length s)")
  show "wf (measure (\<lambda>(s, sep). length s))" by simp
next
  fix s sep :: string and m :: nat
  assume sep: "sep \<noteq> []" and idx: "Index s sep = Some m"
  from sep obtain c cs where "sep = c # cs" by (cases sep) auto
  with Index_bound [OF idx] have "length (drop (m + length sep) s) < length s"
    by simp
  then show "((drop (m + length sep) s, sep), (s, sep)) \<in> measure (\<lambda>(s, sep). length s)"
    by simp
qed

declare Split.simps [simp del]

text \<open>
  \<open>strings.Replace(s, old, new, 1)\<close>: \<open>s\<close> with the first occurrence of
  \<open>old\<close> replaced by \<open>new\<close>; \<open>s\<close> itself when \<open>old\<close> does not occur.
  (An empty \<open>old\<close> matches at the start of the string.)
\<close>

definition Replace1 :: "string \<Rightarrow> string \<Rightarrow> string \<Rightarrow> string" where
  "Replace1 s old new =
     (case Index s old of
        None \<Rightarrow> s
      | Some m \<Rightarrow> take m s @ new @ drop (m + length old) s)"

text \<open>
  \<open>strings.ToUpper\<close> on ASCII text: the letters a..z are mapped to A..Z, every other
  byte is kept. (Go also maps non-ASCII letters; the level names are ASCII.)
\<close>

definition upperByte :: "char \<Rightarrow> char" where
  "upperByte c =
     (case map_of (zip ''abcdefghijklmnopqrstuvwxyz'' ''ABCDEFGHIJKLMNOPQRSTUVWXYZ'') c of
        Some u \<Rightarrow> u
      | None \<Rightarrow> c)"

definition ToUpper :: "string \<Rightarrow> string" where
  "ToUpper s = map upperByte s"

text \<open>\<open>strings.TrimPrefix(s, p)\<close>.\<close>

definition TrimPrefix :: "string \<Rightarrow> string \<Rightarrow> string" where
  "TrimPrefix s p = (if HasPrefix s p then drop (length p) s else s)"

text \<open>
  \<open>fmt.Sprint(args...)\<close> for string operands: no space is added between operands
  that are strings, so the result is their concatenation. The variadic
  \<open>args ...interface{}\<close> of the logging calls are modelled as a list of strings.
\<close>

type_synonym args = "string list"

definition Sprint :: "args \<Rightarrow> string" where
  "Sprint as = concat as"

section \<open>Severity levels\<close>

text \<open>
  \<open>logrus.Level\<close> is a \<open>uint32\<close>; log.go re-exports six of its constants
  (lines 23-38). \<open>TraceLevel\<close> is the seventh level of logrus.
\<close>

type_synonym Level = "32 word"

definition PanicLevel :: Level where "PanicLevel = 0"
definition FatalLevel :: Level where "FatalLevel = 1"
definition ErrorLevel :: Level where "ErrorLevel = 2"
definition WarnLevel :: Level where "WarnLevel = 3"
definition InfoLevel :: Level where "InfoLevel = 4"
definition DebugLevel :: Level where "DebugLevel = 5"
definition TraceLevel :: Level where "TraceLevel = 6"

lemmas level_defs =
  PanicLevel_def FatalLevel_def ErrorLevel_def WarnLevel_def InfoLevel_def DebugLevel_def
  TraceLevel_def

text \<open>
  \<open>logrus.Level.String()\<close>: the lower-case name of the level, \<open>"warning"\<close> for
  \<open>WarnLevel\<close>, and \<open>"unknown"\<close> for a value that is no level of logrus.
\<close>

definition Level_String :: "Level \<Rightarrow> string" where
  "Level_String l =
     (if l = TraceLevel then ''trace''
      else if l = DebugLevel then ''debug''
      else if l = InfoLevel then ''info''
      else if l = WarnLevel then ''warning''
      else if l = ErrorLevel then ''error''
      else if l = FatalLevel then ''fatal''
      else if l = PanicLevel then ''panic''
      else ''unknown'')"

text \<open>
  \<open>LevelFromStr\<close> (lines 503-510): the configuration names of the levels.
\<close>

definition LevelFromStr :: "string \<rightharpoonup> Level" where
  "LevelFromStr =
     [''PANIC'' \<mapsto> PanicLevel, ''FATAL'' \<mapsto> FatalLevel, ''ERROR'' \<mapsto> ErrorLevel,
      ''WARN'' \<mapsto> WarnLevel, ''INFO'' \<mapsto> InfoLevel, ''DEBUG'' \<mapsto> DebugLevel]"

section \<open>Log entries and the formatters\<close>

text \<open>
  A \<open>time.Time\<close> is used by \<open>Format\<close> only through its method
  \<open>Format(layout)\<close>; package \<open>time\<close> is not part of the repository. A point
  in time is therefore represented by that method: the function from a layout to the text
  the time renders to under it.
\<close>

type_synonym Time = "string \<Rightarrow> string"

definition RFC3339 :: string where
  "RFC3339 = ''2006-01-02T15:04:05Z07:00''"

definition StampMilli :: string where
  "StampMilli = ''Jan _2 15:04:05.000''"

text \<open>
  What Go's \<open>Time.Format(time.RFC3339)\<close> renders, after the documentation of
  package \<open>time\<close>: the year in at least four digits (with a sign when negative),
  month, day, hour, minute and second in two digits each, and the zone as \<open>Z\<close>
  for UTC or as a signed \<open>hh:mm\<close> offset. \<open>digitsOf\<close> is the decimal
  numeral of a number and \<open>appendInt\<close> pads it with zeros to a width.
\<close>

fun digitsOf :: "nat \<Rightarrow> string" where
  "digitsOf n =
     (if n < 10 then [''0123456789'' ! n]
      else digitsOf (n div 10) @ [''0123456789'' ! (n mod 10)])"

declare digitsOf.simps [simp del]

definition appendInt :: "int \<Rightarrow> nat \<Rightarrow> string" where
  "appendInt x width =
     (let ds = digitsOf (nat \<bar>x\<bar>)
      in (if x < 0 then ''-'' else []) @ replicate (width - length ds) CHR ''0'' @ ds)"

record Civil =
  year :: int
  month :: nat
  day :: nat
  hour :: nat
  minute :: nat
  second :: nat
  zoneOffset :: int

definition formatZone :: "int \<Rightarrow> string" where
  "formatZone offset =
     (if offset = 0 then ''Z''
      else
        let zone = (if offset < 0 then - ((- offset) div 60) else offset div 60);
            sign = (if zone < 0 then ''-'' else ''+'');
            zone = (if zone < 0 then - zone else zone)
        in sign @ appendInt (zone div 60) 2 @ '':'' @ appendInt (zone mod 60) 2)"

definition formatRFC3339 :: "Civil \<Rightarrow> string" where
  "formatRFC3339 t =
     appendInt (year t) 4 @ ''-'' @ appendInt (int (month t)) 2 @ ''-''
       @ appendInt (int (day t)) 2 @ ''T'' @ appendInt (int (hour t)) 2 @ '':''
       @ appendInt (int (minute t)) 2 @ '':'' @ appendInt (int (second t)) 2
       @ formatZone (zoneOffset t)"

text \<open>
  A Go time with the given civil fields: it renders as above under \<open>RFC3339\<close>
  and as \<open>other\<close> says under every other layout.
\<close>

definition goTime :: "Civil \<Rightarrow> Time \<Rightarrow> Time" where
  "goTime t other layout = (if layout = RFC3339 then formatRFC3339 t else other layout)"

text \<open>
  A value of \<open>entry.Data\<close> (an \<open>interface{}\<close>) is a string or something else;
  \<open>Format\<close> only looks at the strings. The map is an association list in the order
  in which the \<open>range\<close> loop visits its keys.
\<close>

datatype field = StringField string | OtherField

record Entry =
  Data :: "(string \<times> field) list"
  Time :: Time
  Level :: Level
  Message :: string

text \<open>
  \<open>Formatter\<close> (lines 63-74). Of the embedded \<open>logrus.TextFormatter\<close> only
  \<open>TimestampFormat\<close> is read.
\<close>

record Formatter =
  TimestampFormat :: string
  LogFormat :: string
  FileName :: string
  FuncName :: string

definition defaultLogFormat :: string where
  "defaultLogFormat = ''%time%|%lvl%|%func%(%line%)|%msg%\<newline>''"

definition defaultTimestampFormat :: string where
  "defaultTimestampFormat = StampMilli"

text \<open>
  The padding loop of lines 101-105:
  \<open>for i := 7 - len(level); i > 0; i-- { level += " " }\<close>.
\<close>

fun padLoop :: "nat \<Rightarrow> string \<Rightarrow> string" where
  "padLoop 0 level = level"
| "padLoop (Suc i) level = padLoop i (level @ '' '')"

text \<open>Lines 99-105: the text that replaces \<open>%lvl%\<close>.\<close>

definition levelToken :: "Level \<Rightarrow> string" where
  "levelToken l =
     (let level = ToUpper (Level_String l)
      in if length level < 7 then padLoop (7 - length level) level else level)"

text \<open>The loop over \<open>entry.Data\<close> of lines 111-115.\<close>

fun replaceFields :: "string \<Rightarrow> (string \<times> field) list \<Rightarrow> string" where
  "replaceFields output [] = output"
| "replaceFields output ((k, StringField s) # kvs) =
     replaceFields (Replace1 output (''%'' @ k @ ''%'') s) kvs"
| "replaceFields output ((k, OtherField) # kvs) = replaceFields output kvs"

datatype error = SplitDateError | SplitTimeError

text \<open>\<open>(*Formatter).Format\<close> (lines 77-118).\<close>

definition Format :: "Formatter \<Rightarrow> Entry \<Rightarrow> error + string" where
  "Format f entry =
     (let output = (if LogFormat f = [] then defaultLogFormat else LogFormat f);
          timestampFormat =
            (if TimestampFormat f = [] then defaultTimestampFormat else TimestampFormat f);
          currentDate = Split (Time entry RFC3339) ''T''
      in if length currentDate \<noteq> 2 then Inl SplitDateError
         else
           let currentTime = Split (Time entry timestampFormat) '' ''
           in if length currentTime < 1 then Inl SplitTimeError
              else
                let output = Replace1 output ''%time%''
                               (currentDate ! 0 @ '' '' @ currentTime ! (length currentTime - 1));
                    output = Replace1 output ''%msg%'' (Message entry);
                    output = Replace1 output ''%lvl%'' (levelToken (Level entry));
                    output = Replace1 output ''%line%'' (FileName f);
                    output = Replace1 output ''%func%'' (FuncName f)
                in Inr (replaceFields output (Data entry)))"

text \<open>
  \<open>STDFormatter\<close> (lines 120-126) and its \<open>Format\<close> (lines 128-133), the raw
  formatter.
\<close>

record STDFormatter =
  STDLogFormat :: string
  STDFileName :: string
  STDFuncName :: string

definition STDFormat :: "STDFormatter \<Rightarrow> Entry \<Rightarrow> error + string" where
  "STDFormat f entry = Inr (Replace1 ''%msg%\<newline>'' ''%msg%'' (Message entry))"

section \<open>The logrus logger behind each sink\<close>

text \<open>
  Modelled from the spec: the leveled-logging engine (\<open>logrus.Logger\<close>) is an
  external collaborator of the package, "a capability providing log(level, message) per
  sink". What log.go relies on is written out after the documentation of logrus that
  lines 23-38 quote: a logger writes an entry when its own level enables it, rendering it
  with its formatter (nothing is written when the formatter returns an error);
  \<open>Panic\<close> logs and then panics, \<open>Fatal\<close> logs and then exits with status 1
  even when the level is disabled. \<open>Out\<close> lists what the logger has written to its
  writer.
\<close>

datatype formatter = TemplateFormatter Formatter | RawFormatter STDFormatter

record Logger =
  Out :: "string list"
  Formatter :: formatter
  LoggerLevel :: Level

text \<open>
  How a call ends: it returns, exits the process with a status, or panics with a payload
  (the message for a logged panic).
\<close>

datatype ctl = Returned | Exited int | Panicked string

definition nilDereference :: string where
  "nilDereference = ''invalid memory address or nil pointer dereference''"

definition interfaceConversion :: string where
  "interfaceConversion = ''interface conversion: wrong dynamic type''"

definition formatEntry :: "formatter \<Rightarrow> Entry \<Rightarrow> error + string" where
  "formatEntry fm entry =
     (case fm of
        TemplateFormatter f \<Rightarrow> Format f entry
      | RawFormatter f \<Rightarrow> STDFormat f entry)"

definition Entry_write :: "Logger \<Rightarrow> Entry \<Rightarrow> Logger" where
  "Entry_write lg entry =
     (case formatEntry (Formatter lg) entry of
        Inl err \<Rightarrow> lg
      | Inr serialized \<Rightarrow> lg\<lparr>Out := Out lg @ [serialized]\<rparr>)"

definition Logger_IsLevelEnabled :: "Logger \<Rightarrow> Level \<Rightarrow> bool" where
  "Logger_IsLevelEnabled lg level = (LoggerLevel lg \<ge> level)"

definition Logger_Log :: "Logger \<Rightarrow> Time \<Rightarrow> Level \<Rightarrow> args \<Rightarrow> ctl \<times> Logger" where
  "Logger_Log lg now level as =
     (if Logger_IsLevelEnabled lg level
      then (if level \<le> PanicLevel then Panicked (Sprint as) else Returned,
            Entry_write lg \<lparr>Data = [], Time = now, Level = level, Message = Sprint as\<rparr>)
      else (Returned, lg))"

definition Logger_Panic :: "Logger \<Rightarrow> Time \<Rightarrow> args \<Rightarrow> ctl \<times> Logger" where
  "Logger_Panic lg now as = Logger_Log lg now PanicLevel as"

definition Logger_Fatal :: "Logger \<Rightarrow> Time \<Rightarrow> args \<Rightarrow> ctl \<times> Logger" where
  "Logger_Fatal lg now as =
     (let (c, lg') = Logger_Log lg now FatalLevel as
      in if c = Returned then (Exited 1, lg') else (c, lg'))"

definition Logger_Error :: "Logger \<Rightarrow> Time \<Rightarrow> args \<Rightarrow> ctl \<times> Logger" where
  "Logger_Error lg now as = Logger_Log lg now ErrorLevel as"

definition Logger_Warn :: "Logger \<Rightarrow> Time \<Rightarrow> args \<Rightarrow> ctl \<times> Logger" where
  "Logger_Warn lg now as = Logger_Log lg now WarnLevel as"

definition Logger_Info :: "Logger \<Rightarrow> Time \<Rightarrow> args \<Rightarrow> ctl \<times> Logger" where
  "Logger_Info lg now as = Logger_Log lg now InfoLevel as"

definition Logger_Debug :: "Logger \<Rightarrow> Time \<Rightarrow> args \<Rightarrow> ctl \<times> Logger" where
  "Logger_Debug lg now as = Logger_Log lg now DebugLevel as"

section \<open>SWLog: the dual-sink dispatcher\<close>

text \<open>
  \<open>SWLog\<close> (lines 47-60). The two loggers are pointers, \<open>nil\<close> until
  \<open>Init\<close> has run; \<open>Init\<close> allocates one logger per sink, so the two are held
  by value here.
\<close>

record SWLog =
  STDLogger :: "Logger option"
  FileLogger :: "Logger option"
  IsLog2STD :: bool
  LogFile :: string
  LogLevel :: Level
  skip :: int
  isSetup :: bool
  raw :: bool

text \<open>
  What the package reads from the Go runtime, the file system and the libraries it does
  not contain, as parameters of a call: the caller that \<open>runtime.Caller(skip)\<close>
  finds (the qualified name of its function, its file and its line), the functions of
  \<open>path/filepath\<close>, \<open>fmt.Sprintf\<close>, the clock each sink reads when it builds
  an entry, and whether \<open>os.Stat\<close>, \<open>os.MkdirAll\<close> and
  \<open>rotatelogs.New\<close> fail.
\<close>

record runtime =
  Caller :: "int \<Rightarrow> (string \<times> string \<times> int) option"
  filepath_Ext :: "string \<Rightarrow> string"
  filepath_Base :: "string \<Rightarrow> string"
  filepath_Split :: "string \<Rightarrow> string \<times> string"
  filepath_Dir :: "string \<Rightarrow> string"
  FormatInt :: "int \<Rightarrow> string"
  Sprintf :: "string \<Rightarrow> args \<Rightarrow> string"
  NowSTD :: Time
  NowFile :: Time
  StatFails :: "string \<Rightarrow> bool"
  IsExist :: "string \<Rightarrow> bool"
  MkdirAllFails :: "string \<Rightarrow> bool"
  RotatelogsFails :: "string \<Rightarrow> bool"

text \<open>\<open>SetRawSTDLogging\<close> (lines 211-218).\<close>

definition SetRawSTDLogging :: "SWLog \<Rightarrow> bool \<Rightarrow> ctl \<times> SWLog" where
  "SetRawSTDLogging logger isRaw =
     (let logger = logger\<lparr>raw := isRaw\<rparr>
      in case STDLogger logger of
           None \<Rightarrow> (Panicked nilDereference, logger)
         | Some std \<Rightarrow>
             (Returned,
              logger\<lparr>STDLogger := Some (std\<lparr>Formatter :=
                (if raw logger
                 then RawFormatter \<lparr>STDLogFormat = [], STDFileName = [], STDFuncName = []\<rparr>
                 else TemplateFormatter
                        \<lparr>TimestampFormat = [], LogFormat = [], FileName = [], FuncName = []\<rparr>)\<rparr>)\<rparr>))"

text \<open>
  Statements in sequence: the second runs in the state the first leaves, and only when
  the first returns.
\<close>

definition andThen :: "ctl \<times> 's \<Rightarrow> ('s \<Rightarrow> ctl \<times> 's) \<Rightarrow> ctl \<times> 's" where
  "andThen r k = (if fst r \<noteq> Returned then r else k (snd r))"

text \<open>
  \<open>formatterDecorator\<close> (lines 220-230): first the console formatter (lines
  221-227), then the file formatter (lines 228-229). A \<open>nil\<close> logger panics, and
  so do the type assertions when the console formatter is not of the kind the
  \<open>raw\<close> flag says, or the file formatter is not a \<open>Formatter\<close>.
\<close>

definition decorateSTD :: "SWLog \<Rightarrow> string \<Rightarrow> string \<Rightarrow> ctl \<times> SWLog" where
  "decorateSTD logger filename funcname =
     (case STDLogger logger of
        None \<Rightarrow> (Panicked nilDereference, logger)
      | Some std \<Rightarrow>
          (if raw logger
           then (case Formatter std of
                   RawFormatter f \<Rightarrow>
                     (Returned, logger\<lparr>STDLogger := Some (std\<lparr>Formatter :=
                        RawFormatter (f\<lparr>STDFileName := filename, STDFuncName := funcname\<rparr>)\<rparr>)\<rparr>)
                 | TemplateFormatter f \<Rightarrow> (Panicked interfaceConversion, logger))
           else (case Formatter std of
                   TemplateFormatter f \<Rightarrow>
                     (Returned, logger\<lparr>STDLogger := Some (std\<lparr>Formatter :=
                        TemplateFormatter (f\<lparr>FileName := filename, FuncName := funcname\<rparr>)\<rparr>)\<rparr>)
                 | RawFormatter f \<Rightarrow> (Panicked interfaceConversion, logger))))"

definition decorateFile :: "SWLog \<Rightarrow> string \<Rightarrow> string \<Rightarrow> ctl \<times> SWLog" where
  "decorateFile logger filename funcname =
     (case FileLogger logger of
        None \<Rightarrow> (Panicked nilDereference, logger)
      | Some file \<Rightarrow>
          (case Formatter file of
             TemplateFormatter f \<Rightarrow>
               (Returned, logger\<lparr>FileLogger := Some (file\<lparr>Formatter :=
                  TemplateFormatter (f\<lparr>FileName := filename, FuncName := funcname\<rparr>)\<rparr>)\<rparr>)
           | RawFormatter f \<Rightarrow> (Panicked interfaceConversion, logger)))"

definition formatterDecorator :: "SWLog \<Rightarrow> string \<Rightarrow> string \<Rightarrow> ctl \<times> SWLog" where
  "formatterDecorator logger filename funcname =
     andThen (decorateSTD logger filename funcname)
       (\<lambda>logger. decorateFile logger filename funcname)"

text \<open>\<open>isLevelEnabled\<close> (lines 232-234); the comparison is on \<open>uint32\<close>.\<close>

definition isLevelEnabled :: "SWLog \<Rightarrow> Level \<Rightarrow> bool" where
  "isLevelEnabled logger level = (LogLevel logger \<ge> level)"

text \<open>
  The body that every case of the \<open>switch\<close> in \<open>Log\<close> repeats with its own
  logger method \<open>meth\<close> (lines 249-252, 254-257, ...): the console logger's method
  when \<open>IsLog2STD\<close>, then the file logger's.
\<close>

definition callSTD ::
  "runtime \<Rightarrow> SWLog \<Rightarrow> (Logger \<Rightarrow> Time \<Rightarrow> args \<Rightarrow> ctl \<times> Logger) \<Rightarrow> args \<Rightarrow> ctl \<times> SWLog" where
  "callSTD rt logger meth as =
     (case STDLogger logger of
        None \<Rightarrow> (Panicked nilDereference, logger)
      | Some std \<Rightarrow>
          (fst (meth std (NowSTD rt) as),
           logger\<lparr>STDLogger := Some (snd (meth std (NowSTD rt) as))\<rparr>))"

definition callFile ::
  "runtime \<Rightarrow> SWLog \<Rightarrow> (Logger \<Rightarrow> Time \<Rightarrow> args \<Rightarrow> ctl \<times> Logger) \<Rightarrow> args \<Rightarrow> ctl \<times> SWLog" where
  "callFile rt logger meth as =
     (case FileLogger logger of
        None \<Rightarrow> (Panicked nilDereference, logger)
      | Some file \<Rightarrow>
          (fst (meth file (NowFile rt) as),
           logger\<lparr>FileLogger := Some (snd (meth file (NowFile rt) as))\<rparr>))"

definition emit ::
  "runtime \<Rightarrow> SWLog \<Rightarrow> (Logger \<Rightarrow> Time \<Rightarrow> args \<Rightarrow> ctl \<times> Logger) \<Rightarrow> args \<Rightarrow> ctl \<times> SWLog" where
  "emit rt logger meth as =
     andThen (if IsLog2STD logger then callSTD rt logger meth as else (Returned, logger))
       (\<lambda>logger. callFile rt logger meth as)"

text \<open>
  \<open>Log\<close> (lines 237-280). \<open>logrus.Fatal\<close> at line 240 exits the process with
  status 1.
\<close>

definition Log ::
  "runtime \<Rightarrow> SWLog \<Rightarrow> Level \<Rightarrow> string \<Rightarrow> string \<Rightarrow> args \<Rightarrow> ctl \<times> SWLog" where
  "Log rt logger level filename funcname as =
     (if \<not> isSetup logger then (Exited 1, logger)
      else
        andThen (formatterDecorator logger filename funcname)
          (\<lambda>logger.
             if isLevelEnabled logger level
             then (if level = PanicLevel then emit rt logger Logger_Panic as
                   else if level = FatalLevel then emit rt logger Logger_Fatal as
                   else if level = ErrorLevel then emit rt logger Logger_Error as
                   else if level = WarnLevel then emit rt logger Logger_Warn as
                   else if level = InfoLevel then emit rt logger Logger_Info as
                   else emit rt logger Logger_Debug as)
             else (Returned, logger)))"

text \<open>\<open>Logf\<close> (lines 283-285).\<close>

definition Logf ::
  "runtime \<Rightarrow> SWLog \<Rightarrow> Level \<Rightarrow> string \<Rightarrow> string \<Rightarrow> string \<Rightarrow> args \<Rightarrow> ctl \<times> SWLog" where
  "Logf rt logger level format filename funcname as =
     Log rt logger level filename funcname [Sprintf rt format as]"

text \<open>
  The caller resolution that each wrapper starts with (lines 289-299 and its eleven
  copies): the site label and the short function name, both empty when
  \<open>runtime.Caller\<close> finds no frame.
\<close>

definition callerInfo :: "runtime \<Rightarrow> int \<Rightarrow> string \<times> string" where
  "callerInfo rt sk =
     (case Caller rt sk of
        None \<Rightarrow> ([], [])
      | Some (name, file, line) \<Rightarrow>
          (let funcname = TrimPrefix (filepath_Ext rt name) ''.'';
               (dir, filename) = filepath_Split rt file
           in (filepath_Base rt dir @ ''/'' @ filepath_Base rt filename @ '':''
                 @ FormatInt rt line,
               funcname)))"

text \<open>The wrappers of lines 288-387.\<close>

definition Debug :: "runtime \<Rightarrow> SWLog \<Rightarrow> args \<Rightarrow> ctl \<times> SWLog" where
  "Debug rt logger as =
     (let (filename, funcname) = callerInfo rt (skip logger)
      in Log rt logger DebugLevel filename funcname as)"

definition Info :: "runtime \<Rightarrow> SWLog \<Rightarrow> args \<Rightarrow> ctl \<times> SWLog" where
  "Info rt logger as =
     (let (filename, funcname) = callerInfo rt (skip logger)
      in Log rt logger InfoLevel filename funcname as)"

definition Warn :: "runtime \<Rightarrow> SWLog \<Rightarrow> args \<Rightarrow> ctl \<times> SWLog" where
  "Warn rt logger as =
     (let (filename, funcname) = callerInfo rt (skip logger)
      in Log rt logger WarnLevel filename funcname as)"

definition Error :: "runtime \<Rightarrow> SWLog \<Rightarrow> args \<Rightarrow> ctl \<times> SWLog" where
  "Error rt logger as =
     (let (filename, funcname) = callerInfo rt (skip logger)
      in Log rt logger ErrorLevel filename funcname as)"

definition Fatal :: "runtime \<Rightarrow> SWLog \<Rightarrow> args \<Rightarrow> ctl \<times> SWLog" where
  "Fatal rt logger as =
     (let (filename, funcname) = callerInfo rt (skip logger)
      in Log rt logger FatalLevel filename funcname as)"

definition Panic :: "runtime \<Rightarrow> SWLog \<Rightarrow> args \<Rightarrow> ctl \<times> SWLog" where
  "Panic rt logger as =
     (let (filename, funcname) = callerInfo rt (skip logger)
      in Log rt logger PanicLevel filename funcname as)"

text \<open>The format-string wrappers of lines 390-484.\<close>

definition Debugf :: "runtime \<Rightarrow> SWLog \<Rightarrow> string \<Rightarrow> args \<Rightarrow> ctl \<times> SWLog" where
  "Debugf rt logger format as =
     (let (filename, funcname) = callerInfo rt (skip logger)
      in Logf rt logger DebugLevel format filename funcname as)"

definition Infof :: "runtime \<Rightarrow> SWLog \<Rightarrow> string \<Rightarrow> args \<Rightarrow> ctl \<times> SWLog" where
  "Infof rt logger format as =
     (let (filename, funcname) = callerInfo rt (skip logger)
      in Logf rt logger InfoLevel format filename funcname as)"

definition Warnf :: "runtime \<Rightarrow> SWLog \<Rightarrow> string \<Rightarrow> args \<Rightarrow> ctl \<times> SWLog" where
  "Warnf rt logger format as =
     (let (filename, funcname) = callerInfo rt (skip logger)
      in Logf rt logger WarnLevel format filename funcname as)"

definition Errorf :: "runtime \<Rightarrow> SWLog \<Rightarrow> string \<Rightarrow> args \<Rightarrow> ctl \<times> SWLog" where
  "Errorf rt logger format as =
     (let (filename, funcname) = callerInfo rt (skip logger)
      in Logf rt logger ErrorLevel format filename funcname as)"

definition Fatalf :: "runtime \<Rightarrow> SWLog \<Rightarrow> string \<Rightarrow> args \<Rightarrow> ctl \<times> SWLog" where
  "Fatalf rt logger format as =
     (let (filename, funcname) = callerInfo rt (skip logger)
      in Logf rt logger FatalLevel format filename funcname as)"

definition Panicf :: "runtime \<Rightarrow> SWLog \<Rightarrow> string \<Rightarrow> args \<Rightarrow> ctl \<times> SWLog" where
  "Panicf rt logger format as =
     (let (filename, funcname) = callerInfo rt (skip logger)
      in Logf rt logger PanicLevel format filename funcname as)"

section \<open>The instances in memory and the global facade\<close>

text \<open>
  \<open>Init\<close> is a method of any \<open>*SWLog\<close> and also reads the package variable
  \<open>SWLogger\<close> (line 203), so the instances live in a store from addresses to
  values; the receiver of a method is an address. \<open>SWLogger\<close> is the address of
  the global instance, which starts as the zero value (lines 497-500).
\<close>

type_synonym store = "nat \<Rightarrow> SWLog"

definition SWLogger :: nat where
  "SWLogger = 0"

definition zeroSWLog :: SWLog where
  "zeroSWLog =
     \<lparr>STDLogger = None, FileLogger = None, IsLog2STD = False, LogFile = [],
      LogLevel = 0, skip = 0, isSetup = False, raw = False\<rparr>"

definition emptyFormatter :: Formatter where
  "emptyFormatter = \<lparr>TimestampFormat = [], LogFormat = [], FileName = [], FuncName = []\<rparr>"

text \<open>
  \<open>Init\<close> (lines 136-209). Each \<open>logrus.Fatalf\<close> exits the process with
  status 1, after the assignments made so far.
\<close>

definition Init ::
  "runtime \<Rightarrow> store \<Rightarrow> nat \<Rightarrow> string \<Rightarrow> Level \<Rightarrow> bool \<Rightarrow> ctl \<times> store" where
  "Init rt st p logFile level log2STD =
     (if isSetup (st p)
      then (let (c, logger) =
                  Debug rt (st p) [''no need to setup, swlogger is already setup!'']
            in (c, st(p := logger)))
      else
        let logger = (st p)\<lparr>LogLevel := level\<rparr>;
            logger = (if logFile \<noteq> [] then logger\<lparr>LogFile := logFile\<rparr> else logger)
        in if LogFile logger = [] then (Exited 1, st(p := logger))
           else
             let dir = filepath_Dir rt (LogFile logger)
             in if StatFails rt dir \<and> \<not> IsExist rt dir \<and> MkdirAllFails rt dir
                then (Exited 1, st(p := logger))
                else
                  let logger = logger\<lparr>FileLogger := Some
                        \<lparr>Out = [], Formatter = TemplateFormatter emptyFormatter,
                         LoggerLevel = LogLevel logger\<rparr>\<rparr>
                  in if RotatelogsFails rt (LogFile logger) then (Exited 1, st(p := logger))
                     else
                       let logger = logger\<lparr>skip := 2\<rparr>;
                           logger = logger\<lparr>IsLog2STD := log2STD\<rparr>;
                           st = st(p := logger);
                           logger = logger\<lparr>STDLogger := Some
                             \<lparr>Out = [], Formatter = TemplateFormatter emptyFormatter,
                              LoggerLevel = LogLevel (st SWLogger)\<rparr>\<rparr>;
                           logger = logger\<lparr>isSetup := True\<rparr>
                       in (Returned, st(p := logger)))"

text \<open>A method of the instance at an address, run in the store.\<close>

definition atAddr :: "(SWLog \<Rightarrow> ctl \<times> SWLog) \<Rightarrow> store \<Rightarrow> nat \<Rightarrow> ctl \<times> store" where
  "atAddr m st p = (let (c, logger) = m (st p) in (c, st(p := logger)))"

text \<open>\<open>SetLogLevel\<close> (lines 514-521) and \<open>GetLogLevel\<close> (lines 524-527).\<close>

definition SetLogLevel :: "store \<Rightarrow> Level \<Rightarrow> ctl \<times> store" where
  "SetLogLevel st level =
     (let g = st SWLogger;
          (c, g) =
            (if IsLog2STD g
             then (case STDLogger g of
                     None \<Rightarrow> (Panicked nilDereference, g)
                   | Some std \<Rightarrow> (Returned, g\<lparr>STDLogger := Some (std\<lparr>LoggerLevel := level\<rparr>)\<rparr>))
             else (Returned, g))
      in if c \<noteq> Returned then (c, st(SWLogger := g))
         else case FileLogger g of
                None \<Rightarrow> (Panicked nilDereference, st(SWLogger := g))
              | Some file \<Rightarrow>
                  (Returned,
                   st(SWLogger := g\<lparr>FileLogger := Some (file\<lparr>LoggerLevel := level\<rparr>),
                                    LogLevel := level\<rparr>)))"

definition GetLogLevel :: "store \<Rightarrow> string + Level" where
  "GetLogLevel st =
     (case FileLogger (st SWLogger) of
        None \<Rightarrow> Inl nilDereference
      | Some file \<Rightarrow> Inr (LoggerLevel file))"

text \<open>The free functions of lines 530-587 forward to the global instance.\<close>

definition SWLogger_Debug :: "runtime \<Rightarrow> store \<Rightarrow> args \<Rightarrow> ctl \<times> store" where
  "SWLogger_Debug rt st as = atAddr (\<lambda>logger. Debug rt logger as) st SWLogger"

definition SWLogger_Info :: "runtime \<Rightarrow> store \<Rightarrow> args \<Rightarrow> ctl \<times> store" where
  "SWLogger_Info rt st as = atAddr (\<lambda>logger. Info rt logger as) st SWLogger"

definition SWLogger_Warn :: "runtime \<Rightarrow> store \<Rightarrow> args \<Rightarrow> ctl \<times> store" where
  "SWLogger_Warn rt st as = atAddr (\<lambda>logger. Warn rt logger as) st SWLogger"

definition SWLogger_Error :: "runtime \<Rightarrow> store \<Rightarrow> args \<Rightarrow> ctl \<times> store" where
  "SWLogger_Error rt st as = atAddr (\<lambda>logger. Error rt logger as) st SWLogger"

definition SWLogger_Fatal :: "runtime \<Rightarrow> store \<Rightarrow> args \<Rightarrow> ctl \<times> store" where
  "SWLogger_Fatal rt st as = atAddr (\<lambda>logger. Fatal rt logger as) st SWLogger"

definition SWLogger_Panic :: "runtime \<Rightarrow> store \<Rightarrow> args \<Rightarrow> ctl \<times> store" where
  "SWLogger_Panic rt st as = atAddr (\<lambda>logger. Panic rt logger as) st SWLogger"

definition SWLogger_Debugf :: "runtime \<Rightarrow> store \<Rightarrow> string \<Rightarrow> args \<Rightarrow> ctl \<times> store" where
  "SWLogger_Debugf rt st format as = atAddr (\<lambda>logger. Debugf rt logger format as) st SWLogger"

definition SWLogger_Infof :: "runtime \<Rightarrow> store \<Rightarrow> string \<Rightarrow> args \<Rightarrow> ctl \<times> store" where
  "SWLogger_Infof rt st format as = atAddr (\<lambda>logger. Infof rt logger format as) st SWLogger"

definition SWLogger_Warnf :: "runtime \<Rightarrow> store \<Rightarrow> string \<Rightarrow> args \<Rightarrow> ctl \<times> store" where
  "SWLogger_Warnf rt st format as = atAddr (\<lambda>logger. Warnf rt logger format as) st SWLogger"

definition SWLogger_Errorf :: "runtime \<Rightarrow> store \<Rightarrow> string \<Rightarrow> args \<Rightarrow> ctl \<times> store" where
  "SWLogger_Errorf rt st format as = atAddr (\<lambda>logger. Errorf rt logger format as) st SWLogger"

definition SWLogger_Fatalf :: "runtime \<Rightarrow> store \<Rightarrow> string \<Rightarrow> args \<Rightarrow> ctl \<times> store" where
  "SWLogger_Fatalf rt st format as = atAddr (\<lambda>logger. Fatalf rt logger format as) st SWLogger"

definition SWLogger_Panicf :: "runtime \<Rightarrow> store \<Rightarrow> string \<Rightarrow> args \<Rightarrow> ctl \<times> store" where
  "SWLogger_Panicf rt st format as = atAddr (\<lambda>logger. Panicf rt logger format as) st SWLogger"

section \<open>Initialised instances\<close>

text \<open>
  The state \<open>Init\<close> establishes and the methods keep: the instance is set up, both
  loggers exist, the file logger has a template formatter, and the console logger has
  the raw formatter exactly when the \<open>raw\<close> flag is set.
\<close>

definition initialized :: "SWLog \<Rightarrow> bool" where
  "initialized logger =
     (isSetup logger
      \<and> (case STDLogger logger of
           None \<Rightarrow> False
         | Some std \<Rightarrow>
             (case Formatter std of
                RawFormatter f \<Rightarrow> raw logger
              | TemplateFormatter f \<Rightarrow> \<not> raw logger))
      \<and> (case FileLogger logger of
           None \<Rightarrow> False
         | Some file \<Rightarrow>
             (case Formatter file of
                RawFormatter f \<Rightarrow> False
              | TemplateFormatter f \<Rightarrow> True)))"

section \<open>The configuration of an instance\<close>

text \<open>
  What \<open>Init\<close> configures and a later call may be asked to leave alone: the scalar
  fields of the instance and, for each sink, whether it exists, its threshold, the kind of
  its formatter with its template and timestamp pattern, and what it has written so far
  (which may only grow). The caller metadata of a formatter is not part of it: every log
  call overwrites it.
\<close>

definition sameFormatter :: "formatter \<Rightarrow> formatter \<Rightarrow> bool" where
  "sameFormatter a b =
     (case a of
        TemplateFormatter f \<Rightarrow>
          (case b of
             TemplateFormatter g \<Rightarrow>
               TimestampFormat g = TimestampFormat f \<and> LogFormat g = LogFormat f
           | RawFormatter g \<Rightarrow> False)
      | RawFormatter f \<Rightarrow>
          (case b of
             TemplateFormatter g \<Rightarrow> False
           | RawFormatter g \<Rightarrow> STDLogFormat g = STDLogFormat f))"

definition sameSink :: "Logger option \<Rightarrow> Logger option \<Rightarrow> bool" where
  "sameSink a b =
     (case a of
        None \<Rightarrow> b = None
      | Some x \<Rightarrow>
          (case b of
             None \<Rightarrow> False
           | Some y \<Rightarrow>
               LoggerLevel y = LoggerLevel x
               \<and> take (length (Out x)) (Out y) = Out x
               \<and> sameFormatter (Formatter x) (Formatter y)))"

definition sameConfig :: "SWLog \<Rightarrow> SWLog \<Rightarrow> bool" where
  "sameConfig l l' =
     (LogFile l' = LogFile l \<and> LogLevel l' = LogLevel l \<and> IsLog2STD l' = IsLog2STD l
      \<and> skip l' = skip l \<and> isSetup l' = isSetup l \<and> raw l' = raw l
      \<and> sameSink (STDLogger l) (STDLogger l') \<and> sameSink (FileLogger l) (FileLogger l'))"

text \<open>A logger method that leaves the configuration of its logger alone.\<close>

definition keepsSink :: "(Logger \<Rightarrow> Time \<Rightarrow> args \<Rightarrow> ctl \<times> Logger) \<Rightarrow> bool" where
  "keepsSink meth =
     (\<forall>lg now as. LoggerLevel (snd (meth lg now as)) = LoggerLevel lg
        \<and> Formatter (snd (meth lg now as)) = Formatter lg
        \<and> take (length (Out lg)) (Out (snd (meth lg now as))) = Out lg)"

text \<open>
  Names for what \<open>Log\<close> does to a sink: the logger method that the
  \<open>switch\<close> selects for a level, the level at which that method logs, and a
  logger whose formatter has received the caller metadata (what
  \<open>formatterDecorator\<close> does to each of the two).
\<close>

definition sinkMethod :: "Level \<Rightarrow> Logger \<Rightarrow> Time \<Rightarrow> args \<Rightarrow> ctl \<times> Logger" where
  "sinkMethod level =
     (if level = PanicLevel then Logger_Panic
      else if level = FatalLevel then Logger_Fatal
      else if level = ErrorLevel then Logger_Error
      else if level = WarnLevel then Logger_Warn
      else if level = InfoLevel then Logger_Info
      else Logger_Debug)"

definition sinkLevel :: "Level \<Rightarrow> Level" where
  "sinkLevel level =
     (if level = PanicLevel \<or> level = FatalLevel \<or> level = ErrorLevel \<or> level = WarnLevel
         \<or> level = InfoLevel
      then level else DebugLevel)"

definition decorate :: "formatter \<Rightarrow> string \<Rightarrow> string \<Rightarrow> formatter" where
  "decorate fm filename funcname =
     (case fm of
        TemplateFormatter f \<Rightarrow> TemplateFormatter (f\<lparr>FileName := filename, FuncName := funcname\<rparr>)
      | RawFormatter f \<Rightarrow> RawFormatter (f\<lparr>STDFileName := filename, STDFuncName := funcname\<rparr>))"

definition decorated :: "Logger \<Rightarrow> string \<Rightarrow> string \<Rightarrow> Logger" where
  "decorated lg filename funcname = lg\<lparr>Formatter := decorate (Formatter lg) filename funcname\<rparr>"

section \<open>The ordering of the spec, and example values\<close>

text \<open>
  The ordering of severities as the specification words it: Panic highest, Debug lowest.
  A message level has priority at or above a threshold when it stands at or before the
  threshold in that list.
\<close>

definition severityOrder :: "Level list" where
  "severityOrder = [PanicLevel, FatalLevel, ErrorLevel, WarnLevel, InfoLevel, DebugLevel]"

fun position :: "Level \<Rightarrow> Level list \<Rightarrow> nat" where
  "position l [] = 0"
| "position l (x # xs) = (if l = x then 0 else Suc (position l xs))"

definition priorityAtOrAbove :: "Level \<Rightarrow> Level \<Rightarrow> bool" where
  "priorityAtOrAbove messageLevel threshold =
     (position messageLevel severityOrder \<le> position threshold severityOrder)"

text \<open>
  The record of the example test: 2021-03-09 10:16:18 at UTC+8, rendered
  \<open>Mar  9 10:16:18.000\<close> under \<open>time.StampMilli\<close>.
\<close>

definition exampleTime :: Time where
  "exampleTime =
     goTime \<lparr>year = 2021, month = 3, day = 9, hour = 10, minute = 16, second = 18,
             zoneOffset = 28800\<rparr>
       (\<lambda>layout. ''Mar  9 10:16:18.000'')"

definition exampleFormatter :: Formatter where
  "exampleFormatter =
     \<lparr>TimestampFormat = [], LogFormat = [],
      FileName = ''examples/example_log_test.go:23'', FuncName = ''ExampleSWLog_Debug''\<rparr>"

definition exampleEntry :: Entry where
  "exampleEntry =
     \<lparr>Data = [(''msg'', StringField ''other''), (''n'', OtherField)], Time = exampleTime,
      Level = DebugLevel, Message = ''test debug''\<rparr>"

text \<open>
  An environment in which nothing fails, with the caller of the example test, and the
  global instance after \<open>SWLogger.Init("/tmp/test.log", logrus.DebugLevel, true)\<close>
  from the initial store.
\<close>

definition exampleRuntime :: runtime where
  "exampleRuntime =
     \<lparr>Caller = (\<lambda>sk. Some (''github.com/edony-ink/log_test.ExampleSWLog_Debug'',
                            ''/src/log/examples/example_log_test.go'', 23)),
      filepath_Ext = (\<lambda>name. ''.ExampleSWLog_Debug''),
      filepath_Base =
        (\<lambda>path. if path = ''/src/log/examples/'' then ''examples'' else ''example_log_test.go''),
      filepath_Split = (\<lambda>path. (''/src/log/examples/'', ''example_log_test.go'')),
      filepath_Dir = (\<lambda>path. ''/tmp''),
      FormatInt = (\<lambda>i. ''23''),
      Sprintf = (\<lambda>format as. concat as),
      NowSTD = exampleTime,
      NowFile = exampleTime,
      StatFails = (\<lambda>dir. False),
      IsExist = (\<lambda>dir. False),
      MkdirAllFails = (\<lambda>dir. False),
      RotatelogsFails = (\<lambda>file. False)\<rparr>"

definition zeroStore :: store where
  "zeroStore = (\<lambda>p. zeroSWLog)"

definition exampleStore :: store where
  "exampleStore = snd (Init exampleRuntime zeroStore SWLogger ''/tmp/test.log'' DebugLevel True)"

section \<open>Facts about the library functions\<close>

lemma padLoop_replicate: "padLoop n s = s @ replicate n CHR '' ''"
  by (induction n arbitrary: s) (simp_all add: replicate_app_Cons_same)

lemma Index_single_None: "Index s [c] = None \<Longrightarrow> count_list s c = 0"
  by (induction s) (auto split: if_splits)

lemma Index_single_Some:
  "Index s [c] = Some m \<Longrightarrow> count_list s c = Suc (count_list (drop (Suc m) s) c)"
  by (induction s arbitrary: m) (auto split: if_splits)

text \<open>Splitting at a one-byte separator gives one piece more than there are separators.\<close>

lemma Split_single_length: "length (Split s [c]) = Suc (count_list s c)"
proof (induction "length s" arbitrary: s rule: less_induct)
  case less
  show ?case
  proof (cases "Index s [c]")
    case None
    then show ?thesis
      by (simp add: Split.simps [of s] Index_single_None)
  next
    case (Some m)
    from Index_bound [OF Some] have "length (drop (Suc m) s) < length s" by simp
    from less [OF this] Some show ?thesis
      by (simp add: Split.simps [of s] Index_single_Some)
  qed
qed

lemma Split_nonempty: "sep \<noteq> [] \<Longrightarrow> 1 \<le> length (Split s sep)"
  by (cases "Index s sep") (simp_all add: Split.simps [of s])

lemma Split_not_Nil: "sep \<noteq> [] \<Longrightarrow> Split s sep \<noteq> []"
  by (cases "Index s sep") (simp_all add: Split.simps [of s])

lemma Index_notin: "c \<notin> set s \<Longrightarrow> Index s (c # cs) = None"
  by (induction s) auto

lemma Replace1_notin: "c \<notin> set s \<Longrightarrow> Replace1 s (c # cs) new = s"
  by (simp add: Replace1_def Index_notin)

lemma replaceFields_no_percent: "CHR ''%'' \<notin> set out \<Longrightarrow> replaceFields out kvs = out"
  by (induction out kvs rule: replaceFields.induct) (simp_all add: Replace1_notin)

lemma digit_not_T:
  assumes "n < 10"
  shows "CHR ''T'' \<noteq> ''0123456789'' ! n"
proof -
  have "''0123456789'' ! n \<in> set ''0123456789''"
    using assms by (intro nth_mem) simp
  then show ?thesis by auto
qed

lemma digitsOf_no_T: "CHR ''T'' \<notin> set (digitsOf n)"
proof (induction n rule: digitsOf.induct)
  case (1 n)
  show ?case
  proof (cases "n < 10")
    case True
    then show ?thesis by (simp add: digitsOf.simps [of n] digit_not_T)
  next
    case False
    with 1 have "CHR ''T'' \<notin> set (digitsOf (n div 10))" by simp
    moreover have "CHR ''T'' \<noteq> ''0123456789'' ! (n mod 10)" by (rule digit_not_T) simp
    ultimately show ?thesis using False by (simp add: digitsOf.simps [of n])
  qed
qed

lemma appendInt_no_T: "CHR ''T'' \<notin> set (appendInt x w)"
  using digitsOf_no_T by (auto simp: appendInt_def Let_def)

lemma formatZone_no_T: "CHR ''T'' \<notin> set (formatZone z)"
  using appendInt_no_T by (auto simp: formatZone_def Let_def)

lemma count_list_0: "c \<notin> set xs \<Longrightarrow> count_list xs c = 0"
  by (induction xs) auto

text \<open>The RFC3339 rendering of a Go time has exactly one \<open>T\<close>.\<close>

lemma formatRFC3339_one_T: "count_list (formatRFC3339 t) CHR ''T'' = 1"
  by (simp add: formatRFC3339_def count_list_0 appendInt_no_T formatZone_no_T)

lemma exampleTime_RFC3339: "exampleTime RFC3339 = ''2021-03-09T10:16:18+08:00''"
  by code_simp

lemma exampleTime_StampMilli: "exampleTime StampMilli = ''Mar  9 10:16:18.000''"
  by code_simp

lemma exampleTime_date:
  "Split (exampleTime RFC3339) ''T'' = [''2021-03-09'', ''10:16:18+08:00'']"
  unfolding exampleTime_RFC3339 by code_simp

lemma exampleTime_time:
  "Split (exampleTime StampMilli) '' '' = [''Mar'', [], ''9'', ''10:16:18.000'']"
  unfolding exampleTime_StampMilli by code_simp

section \<open>Facts about the formatters\<close>

lemma Level_String_cases:
  "Level_String l \<in>
     {''trace'', ''debug'', ''info'', ''warning'', ''error'', ''fatal'', ''panic'', ''unknown''}"
  by (simp add: Level_String_def)

lemma levelToken_length: "length (levelToken l) = 7"
  using Level_String_cases [of l]
  by (auto simp: levelToken_def Let_def ToUpper_def padLoop_replicate)

lemma levelToken_no_percent: "CHR ''%'' \<notin> set (levelToken l)"
  using Level_String_cases [of l]
  by (auto simp: levelToken_def Let_def ToUpper_def padLoop_replicate upperByte_def)

lemma levelToken_eq:
  "levelToken l = ToUpper (Level_String l) @ replicate (7 - length (Level_String l)) CHR '' ''"
  using Level_String_cases [of l]
  by (auto simp: levelToken_def Let_def ToUpper_def padLoop_replicate)

lemma Format_lvl_template:
  assumes "length (Split (Time entry RFC3339) ''T'') = 2"
  shows "Format (f\<lparr>LogFormat := ''%lvl%''\<rparr>) entry = Inr (levelToken (Level entry))"
proof -
  have a: "Replace1 ''%lvl%'' ''%time%'' x = ''%lvl%''" for x by (simp add: Replace1_def)
  have b: "Replace1 ''%lvl%'' ''%msg%'' x = ''%lvl%''" for x by (simp add: Replace1_def)
  have c: "Replace1 ''%lvl%'' ''%lvl%'' x = x" for x by (simp add: Replace1_def)
  show ?thesis
    using assms
    by (simp add: Format_def Let_def a b c Replace1_notin levelToken_no_percent
        replaceFields_no_percent Split_not_Nil)
qed

lemma Format_date_branch:
  "Format f entry = Inl SplitDateError \<longleftrightarrow> count_list (Time entry RFC3339) CHR ''T'' \<noteq> 1"
  by (simp add: Format_def Let_def Split_single_length Split_not_Nil)

lemma Format_result:
  "(\<exists>out. Format f entry = Inr out) \<longleftrightarrow> count_list (Time entry RFC3339) CHR ''T'' = 1"
  by (simp add: Format_def Let_def Split_single_length Split_not_Nil)

lemma Format_time_branch: "Format f entry \<noteq> Inl SplitTimeError"
  by (simp add: Format_def Let_def Split_not_Nil)

lemma STDFormat_message: "STDFormat f entry = Inr (Message entry @ ''\<newline>'')"
  by (simp add: STDFormat_def Replace1_def)

section \<open>Facts about the dispatcher\<close>

lemma sameFormatter_refl: "sameFormatter a a"
  by (simp add: sameFormatter_def split: formatter.splits)

lemma sameSink_refl: "sameSink a a"
  by (simp add: sameSink_def sameFormatter_refl split: option.splits)

lemma sameConfig_refl: "sameConfig l l"
  by (simp add: sameConfig_def sameSink_refl)

lemma sameSink_Some:
  "sameSink (Some x) (Some y) \<longleftrightarrow>
     LoggerLevel y = LoggerLevel x \<and> take (length (Out x)) (Out y) = Out x
     \<and> sameFormatter (Formatter x) (Formatter y)"
  by (simp add: sameSink_def)

lemma sameFormatter_simps:
  "sameFormatter (TemplateFormatter f) (TemplateFormatter g) \<longleftrightarrow>
     TimestampFormat g = TimestampFormat f \<and> LogFormat g = LogFormat f"
  "sameFormatter (RawFormatter h) (RawFormatter k) \<longleftrightarrow> STDLogFormat k = STDLogFormat h"
  by (simp_all add: sameFormatter_def)

lemma sameFormatter_trans: "sameFormatter a b \<Longrightarrow> sameFormatter b c \<Longrightarrow> sameFormatter a c"
  by (auto simp: sameFormatter_def split: formatter.splits)

lemma take_prefix_trans:
  assumes "take (length xs) ys = xs" and "take (length ys) zs = ys"
  shows "take (length xs) zs = xs"
proof -
  have "length (take (length xs) ys) = length xs" using assms(1) by simp
  then have le: "length xs \<le> length ys" by simp
  have "take (length xs) zs = take (length xs) (take (length ys) zs)"
    using le by (simp add: min_def)
  with assms show ?thesis by simp
qed

lemma sameSink_trans:
  assumes "sameSink a b" and "sameSink b c"
  shows "sameSink a c"
proof (cases a)
  case None
  with assms show ?thesis by (simp add: sameSink_def)
next
  case (Some x)
  with assms(1) obtain y where y: "b = Some y" by (auto simp: sameSink_def split: option.splits)
  with assms(2) obtain z where z: "c = Some z" by (auto simp: sameSink_def split: option.splits)
  from assms Some y z show ?thesis
    using sameFormatter_trans [of "Formatter x" "Formatter y" "Formatter z"]
      take_prefix_trans [of "Out x" "Out y" "Out z"]
    by (simp add: sameSink_def)
qed

lemma sameConfig_trans: "sameConfig a b \<Longrightarrow> sameConfig b c \<Longrightarrow> sameConfig a c"
  using sameSink_trans by (auto simp: sameConfig_def)

lemma andThen_sameConfig:
  assumes "sameConfig l (snd r)" and "\<And>l'. sameConfig l' (snd (k l'))"
  shows "sameConfig l (snd (andThen r k))"
  using assms sameConfig_trans by (auto simp: andThen_def)

lemma andThen_initialized:
  assumes "initialized (snd r)" and "\<And>l'. initialized l' \<Longrightarrow> initialized (snd (k l'))"
  shows "initialized (snd (andThen r k))"
  using assms by (simp add: andThen_def)

lemma andThen_Returned:
  assumes "fst r = Returned" and "fst (k (snd r)) = Returned"
  shows "fst (andThen r k) = Returned"
  using assms by (simp add: andThen_def)

lemma Logger_Log_keeps:
  "LoggerLevel (snd (Logger_Log lg now level as)) = LoggerLevel lg
   \<and> Formatter (snd (Logger_Log lg now level as)) = Formatter lg
   \<and> take (length (Out lg)) (Out (snd (Logger_Log lg now level as))) = Out lg"
  by (simp add: Logger_Log_def Entry_write_def split: sum.splits)

lemma keepsSink_methods:
  "keepsSink Logger_Panic" "keepsSink Logger_Fatal" "keepsSink Logger_Error"
  "keepsSink Logger_Warn" "keepsSink Logger_Info" "keepsSink Logger_Debug"
  using Logger_Log_keeps
  by (simp_all add: keepsSink_def Logger_Panic_def Logger_Fatal_def Logger_Error_def
      Logger_Warn_def Logger_Info_def Logger_Debug_def split_beta)

lemma decorateSTD_sameConfig: "sameConfig l (snd (decorateSTD l fn fu))"
  by (simp add: decorateSTD_def sameConfig_def sameSink_Some sameFormatter_simps sameSink_refl
      split: option.splits formatter.splits)

lemma decorateFile_sameConfig: "sameConfig l (snd (decorateFile l fn fu))"
  by (simp add: decorateFile_def sameConfig_def sameSink_Some sameFormatter_simps sameSink_refl
      split: option.splits formatter.splits)

lemma formatterDecorator_sameConfig: "sameConfig l (snd (formatterDecorator l fn fu))"
  unfolding formatterDecorator_def
  by (rule andThen_sameConfig) (rule decorateSTD_sameConfig decorateFile_sameConfig)+

lemma decorateSTD_initialized:
  "initialized l \<Longrightarrow>
     fst (decorateSTD l fn fu) = Returned \<and> initialized (snd (decorateSTD l fn fu))"
  by (auto simp: decorateSTD_def initialized_def split: option.splits formatter.splits)

lemma decorateFile_initialized:
  "initialized l \<Longrightarrow>
     fst (decorateFile l fn fu) = Returned \<and> initialized (snd (decorateFile l fn fu))"
  by (auto simp: decorateFile_def initialized_def split: option.splits formatter.splits)

lemma formatterDecorator_initialized:
  assumes "initialized l"
  shows "fst (formatterDecorator l fn fu) = Returned
    \<and> initialized (snd (formatterDecorator l fn fu))"
  using decorateSTD_initialized [OF assms, of fn fu]
    decorateFile_initialized [of "snd (decorateSTD l fn fu)" fn fu]
  by (simp add: formatterDecorator_def andThen_def)

lemma callSTD_sameConfig: "keepsSink meth \<Longrightarrow> sameConfig l (snd (callSTD rt l meth as))"
  by (simp add: callSTD_def sameConfig_def sameSink_Some sameFormatter_refl sameSink_refl
      keepsSink_def split: option.splits)

lemma callFile_sameConfig: "keepsSink meth \<Longrightarrow> sameConfig l (snd (callFile rt l meth as))"
  by (simp add: callFile_def sameConfig_def sameSink_Some sameFormatter_refl sameSink_refl
      keepsSink_def split: option.splits)

lemma emit_sameConfig:
  assumes "keepsSink meth"
  shows "sameConfig l (snd (emit rt l meth as))"
  unfolding emit_def
  by (rule andThen_sameConfig)
    (simp_all add: callSTD_sameConfig callFile_sameConfig assms sameConfig_refl)

lemma callSTD_initialized:
  "keepsSink meth \<Longrightarrow> initialized l \<Longrightarrow> initialized (snd (callSTD rt l meth as))"
  by (auto simp: callSTD_def initialized_def keepsSink_def split: option.splits formatter.splits)

lemma callFile_initialized:
  "keepsSink meth \<Longrightarrow> initialized l \<Longrightarrow> initialized (snd (callFile rt l meth as))"
  by (auto simp: callFile_def initialized_def keepsSink_def split: option.splits formatter.splits)

lemma emit_initialized:
  assumes "keepsSink meth" and "initialized l"
  shows "initialized (snd (emit rt l meth as))"
  unfolding emit_def
  by (rule andThen_initialized)
    (simp_all add: callSTD_initialized callFile_initialized assms)

text \<open>A log call never changes the configuration, however it ends.\<close>

lemma Log_sameConfig: "sameConfig l (snd (Log rt l level fn fu as))"
proof (cases "isSetup l")
  case False
  then show ?thesis by (simp add: Log_def sameConfig_refl)
next
  case True
  have "sameConfig l (snd (andThen (formatterDecorator l fn fu)
          (\<lambda>logger.
             if isLevelEnabled logger level
             then (if level = PanicLevel then emit rt logger Logger_Panic as
                   else if level = FatalLevel then emit rt logger Logger_Fatal as
                   else if level = ErrorLevel then emit rt logger Logger_Error as
                   else if level = WarnLevel then emit rt logger Logger_Warn as
                   else if level = InfoLevel then emit rt logger Logger_Info as
                   else emit rt logger Logger_Debug as)
             else (Returned, logger))))"
    by (rule andThen_sameConfig)
      (simp_all add: formatterDecorator_sameConfig emit_sameConfig keepsSink_methods
        sameConfig_refl)
  with True show ?thesis by (simp add: Log_def)
qed

lemma Log_initialized:
  assumes "initialized l"
  shows "initialized (snd (Log rt l level fn fu as))"
proof -
  from assms have "isSetup l" by (simp add: initialized_def)
  moreover have "initialized (snd (andThen (formatterDecorator l fn fu)
          (\<lambda>logger.
             if isLevelEnabled logger level
             then (if level = PanicLevel then emit rt logger Logger_Panic as
                   else if level = FatalLevel then emit rt logger Logger_Fatal as
                   else if level = ErrorLevel then emit rt logger Logger_Error as
                   else if level = WarnLevel then emit rt logger Logger_Warn as
                   else if level = InfoLevel then emit rt logger Logger_Info as
                   else emit rt logger Logger_Debug as)
             else (Returned, logger))))"
    by (rule andThen_initialized)
      (simp_all add: formatterDecorator_initialized assms emit_initialized keepsSink_methods)
  ultimately show ?thesis by (simp add: Log_def)
qed

lemma Log_sinkMethod:
  "Log rt logger level filename funcname as =
     (if \<not> isSetup logger then (Exited 1, logger)
      else andThen (formatterDecorator logger filename funcname)
             (\<lambda>logger. if isLevelEnabled logger level
                        then emit rt logger (sinkMethod level) as
                        else (Returned, logger)))"
proof -
  have h: "emit rt lg (sinkMethod level) as =
      (if level = PanicLevel then emit rt lg Logger_Panic as
       else if level = FatalLevel then emit rt lg Logger_Fatal as
       else if level = ErrorLevel then emit rt lg Logger_Error as
       else if level = WarnLevel then emit rt lg Logger_Warn as
       else if level = InfoLevel then emit rt lg Logger_Info as
       else emit rt lg Logger_Debug as)" for lg
    by (simp add: sinkMethod_def)
  show ?thesis unfolding Log_def h by simp
qed

lemma keepsSink_sinkMethod: "keepsSink (sinkMethod level)"
  by (simp add: sinkMethod_def keepsSink_methods)

lemma sinkMethod_snd:
  "snd (sinkMethod level lg now as) = snd (Logger_Log lg now (sinkLevel level) as)"
  by (simp add: sinkMethod_def sinkLevel_def Logger_Panic_def Logger_Fatal_def Logger_Error_def
      Logger_Warn_def Logger_Info_def Logger_Debug_def split_beta)

lemma sinkMethod_fst:
  "fst (sinkMethod level lg now as) =
     (if level = PanicLevel then Panicked (Sprint as)
      else if level = FatalLevel then Exited 1
      else Returned)"
  by (simp add: sinkMethod_def Logger_Panic_def Logger_Fatal_def Logger_Error_def
      Logger_Warn_def Logger_Info_def Logger_Debug_def Logger_Log_def Logger_IsLevelEnabled_def
      split_beta level_defs)

lemma sinkLevel_enabled:
  "Logger_IsLevelEnabled lg level \<Longrightarrow> Logger_IsLevelEnabled lg (sinkLevel level)"
  by (auto simp: Logger_IsLevelEnabled_def sinkLevel_def level_defs word_le_nat_alt
      word_unat_eq_iff)

lemma formatterDecorator_decorated:
  assumes "initialized l" and "STDLogger l = Some std" and "FileLogger l = Some file"
  shows "formatterDecorator l fn fu =
    (Returned, l\<lparr>STDLogger := Some (decorated std fn fu),
                 FileLogger := Some (decorated file fn fu)\<rparr>)"
  using assms
  by (auto simp: formatterDecorator_def decorateSTD_def decorateFile_def andThen_def
      initialized_def decorated_def decorate_def split: formatter.splits)

text \<open>Where an enabled message goes.\<close>

lemma Log_routing:
  assumes "initialized l" and "STDLogger l = Some std" and "FileLogger l = Some file"
    and "isLevelEnabled l level"
  shows "Log rt l level fn fu as =
    (if IsLog2STD l
     then (if level = PanicLevel \<or> level = FatalLevel
           then (fst (sinkMethod level (decorated std fn fu) (NowSTD rt) as),
                 l\<lparr>STDLogger := Some (snd (sinkMethod level (decorated std fn fu) (NowSTD rt) as)),
                   FileLogger := Some (decorated file fn fu)\<rparr>)
           else (Returned,
                 l\<lparr>STDLogger := Some (snd (sinkMethod level (decorated std fn fu) (NowSTD rt) as)),
                   FileLogger :=
                     Some (snd (sinkMethod level (decorated file fn fu) (NowFile rt) as))\<rparr>))
     else (fst (sinkMethod level (decorated file fn fu) (NowFile rt) as),
           l\<lparr>STDLogger := Some (decorated std fn fu),
             FileLogger :=
               Some (snd (sinkMethod level (decorated file fn fu) (NowFile rt) as))\<rparr>))"
proof -
  from assms(1) have s: "isSetup l" by (simp add: initialized_def)
  show ?thesis
    using s assms(4)
    by (simp add: Log_sinkMethod formatterDecorator_decorated [OF assms(1-3)] andThen_def
        isLevelEnabled_def emit_def callSTD_def callFile_def sinkMethod_fst)
qed

lemma Log_disabled:
  assumes "initialized l" and "STDLogger l = Some std" and "FileLogger l = Some file"
    and "\<not> isLevelEnabled l level"
  shows "Log rt l level fn fu as =
    (Returned, l\<lparr>STDLogger := Some (decorated std fn fu),
                 FileLogger := Some (decorated file fn fu)\<rparr>)"
proof -
  from assms(1) have s: "isSetup l" by (simp add: initialized_def)
  show ?thesis
    using s assms(4)
    by (simp add: Log_sinkMethod formatterDecorator_decorated [OF assms(1-3)] andThen_def
        isLevelEnabled_def)
qed

lemma Logger_Log_enabled_Out:
  assumes "Logger_IsLevelEnabled lg level"
  shows "Out (snd (sinkMethod level lg now as)) =
    (case formatEntry (Formatter lg)
            \<lparr>Data = [], Time = now, Level = sinkLevel level, Message = Sprint as\<rparr> of
       Inl e \<Rightarrow> Out lg
     | Inr b \<Rightarrow> Out lg @ [b])"
  using sinkLevel_enabled [OF assms]
  by (simp add: sinkMethod_snd Logger_Log_def Entry_write_def split: sum.splits)

lemma decorated_simps:
  "Out (decorated lg fn fu) = Out lg"
  "LoggerLevel (decorated lg fn fu) = LoggerLevel lg"
  "Formatter (decorated lg fn fu) = decorate (Formatter lg) fn fu"
  "Logger_IsLevelEnabled (decorated lg fn fu) level = Logger_IsLevelEnabled lg level"
  by (simp_all add: decorated_def Logger_IsLevelEnabled_def)

lemma Log_STDLogger:
  assumes "initialized l" and "STDLogger l = Some std" and "FileLogger l = Some file"
  shows "STDLogger (snd (Log rt l level fn fu as)) =
    Some (if IsLog2STD l \<and> isLevelEnabled l level
          then snd (sinkMethod level (decorated std fn fu) (NowSTD rt) as)
          else decorated std fn fu)"
proof (cases "isLevelEnabled l level")
  case True
  then show ?thesis by (simp add: Log_routing [OF assms True])
next
  case False
  then show ?thesis by (simp add: Log_disabled [OF assms False])
qed

lemma Log_FileLogger:
  assumes "initialized l" and "STDLogger l = Some std" and "FileLogger l = Some file"
  shows "FileLogger (snd (Log rt l level fn fu as)) =
    Some (if isLevelEnabled l level
             \<and> (\<not> IsLog2STD l \<or> level \<noteq> PanicLevel \<and> level \<noteq> FatalLevel)
          then snd (sinkMethod level (decorated file fn fu) (NowFile rt) as)
          else decorated file fn fu)"
proof (cases "isLevelEnabled l level")
  case True
  then show ?thesis by (simp add: Log_routing [OF assms True])
next
  case False
  then show ?thesis by (simp add: Log_disabled [OF assms False])
qed

lemma SetRawSTDLogging_True:
  assumes "initialized l" and "STDLogger l = Some std"
  shows "SetRawSTDLogging l True =
    (Returned, l\<lparr>raw := True,
                 STDLogger := Some (std\<lparr>Formatter :=
                   RawFormatter \<lparr>STDLogFormat = [], STDFileName = [], STDFuncName = []\<rparr>\<rparr>)\<rparr>)"
  using assms by (simp add: SetRawSTDLogging_def Let_def)

lemma SetRawSTDLogging_initialized:
  assumes "initialized l"
  shows "fst (SetRawSTDLogging l isRaw) = Returned \<and> initialized (snd (SetRawSTDLogging l isRaw))"
  using assms
  by (auto simp: SetRawSTDLogging_def initialized_def Let_def split: option.splits)

lemma formatEntry_raw: "formatEntry (RawFormatter f) entry = Inr (Message entry @ ''\<newline>'')"
  by (simp add: formatEntry_def STDFormat_message)

lemma Debug_sameConfig: "sameConfig l (snd (Debug rt l as))"
  by (simp add: Debug_def split_beta Log_sameConfig)

lemma emit_Debug_Returned:
  assumes "initialized l"
  shows "fst (emit rt l Logger_Debug as) = Returned"
  using assms
  by (auto simp: emit_def andThen_def callSTD_def callFile_def Logger_Debug_def Logger_Log_def
      initialized_def level_defs split: option.splits)

lemma Debug_initialized:
  assumes "initialized l"
  shows "fst (Debug rt l as) = Returned \<and> initialized (snd (Debug rt l as))"
proof -
  obtain fn fu where c: "callerInfo rt (skip l) = (fn, fu)" by (cases "callerInfo rt (skip l)")
  let ?d = "formatterDecorator l fn fu"
  from formatterDecorator_initialized [OF assms, of fn fu]
  have d: "fst ?d = Returned" "initialized (snd ?d)" by simp_all
  from assms have "isSetup l" by (simp add: initialized_def)
  then have "fst (Log rt l DebugLevel fn fu as) = Returned"
    using d emit_Debug_Returned [OF d(2), of rt as]
    by (simp add: Log_def andThen_def level_defs)
  with Log_initialized [OF assms, of rt DebugLevel fn fu as] c show ?thesis
    by (simp add: Debug_def)
qed

text \<open>\<open>Init\<close> on an instance that is not set up, in an environment where nothing fails.\<close>

lemma Init_establishes:
  assumes "\<not> isSetup (st p)" and "\<not> raw (st p)"
    and "logFile \<noteq> [] \<or> LogFile (st p) \<noteq> []"
    and "\<not> (StatFails rt (filepath_Dir rt (if logFile \<noteq> [] then logFile else LogFile (st p)))
            \<and> \<not> IsExist rt (filepath_Dir rt (if logFile \<noteq> [] then logFile else LogFile (st p)))
            \<and> MkdirAllFails rt
                 (filepath_Dir rt (if logFile \<noteq> [] then logFile else LogFile (st p))))"
    and "\<not> RotatelogsFails rt (if logFile \<noteq> [] then logFile else LogFile (st p))"
  shows "fst (Init rt st p logFile level log2STD) = Returned
    \<and> initialized (snd (Init rt st p logFile level log2STD) p)
    \<and> LogLevel (snd (Init rt st p logFile level log2STD) p) = level
    \<and> IsLog2STD (snd (Init rt st p logFile level log2STD) p) = log2STD
    \<and> skip (snd (Init rt st p logFile level log2STD) p) = 2
    \<and> map_option LoggerLevel (FileLogger (snd (Init rt st p logFile level log2STD) p)) = Some level
    \<and> map_option LoggerLevel (STDLogger (snd (Init rt st p logFile level log2STD) p))
        = Some (if p = SWLogger then level else LogLevel (st SWLogger))"
proof (cases "logFile = []")
  case True
  with assms show ?thesis by (simp add: Init_def Let_def initialized_def)
next
  case False
  with assms show ?thesis by (simp add: Init_def Let_def initialized_def)
qed

text \<open>The free functions before \<open>SWLogger.Init\<close>: the same exit, the store unchanged.\<close>

lemma SWLogger_before_Init:
  assumes "\<not> isSetup (st SWLogger)"
  shows "SWLogger_Debug rt st as = (Exited 1, st)" "SWLogger_Info rt st as = (Exited 1, st)"
    "SWLogger_Warn rt st as = (Exited 1, st)" "SWLogger_Error rt st as = (Exited 1, st)"
    "SWLogger_Fatal rt st as = (Exited 1, st)" "SWLogger_Panic rt st as = (Exited 1, st)"
    "SWLogger_Debugf rt st format as = (Exited 1, st)"
    "SWLogger_Infof rt st format as = (Exited 1, st)"
    "SWLogger_Warnf rt st format as = (Exited 1, st)"
    "SWLogger_Errorf rt st format as = (Exited 1, st)"
    "SWLogger_Fatalf rt st format as = (Exited 1, st)"
    "SWLogger_Panicf rt st format as = (Exited 1, st)"
  using assms
  by (simp_all add: SWLogger_Debug_def SWLogger_Info_def SWLogger_Warn_def SWLogger_Error_def
      SWLogger_Fatal_def SWLogger_Panic_def SWLogger_Debugf_def SWLogger_Infof_def
      SWLogger_Warnf_def SWLogger_Errorf_def SWLogger_Fatalf_def SWLogger_Panicf_def
      atAddr_def Log_def Logf_def Debug_def Info_def Warn_def Error_def Fatal_def Panic_def
      Debugf_def Infof_def Warnf_def Errorf_def Fatalf_def Panicf_def split_beta)

lemma exampleStore_SWLogger:
  "exampleStore SWLogger =
     \<lparr>STDLogger = Some \<lparr>Out = [], Formatter = TemplateFormatter emptyFormatter,
                         LoggerLevel = DebugLevel\<rparr>,
      FileLogger = Some \<lparr>Out = [], Formatter = TemplateFormatter emptyFormatter,
                          LoggerLevel = DebugLevel\<rparr>,
      IsLog2STD = True, LogFile = ''/tmp/test.log'', LogLevel = DebugLevel, skip = 2,
      isSetup = True, raw = False\<rparr>"
  by (simp add: exampleStore_def Init_def zeroStore_def zeroSWLog_def exampleRuntime_def
      Let_def)

lemma exampleStore_initialized: "initialized (exampleStore SWLogger)"
  by (simp add: exampleStore_SWLogger initialized_def)

section \<open>Routing to the two sinks\<close>

text \<open>
  Claim C1. On the global instance as
  \<open>SWLogger.Init("/tmp/test.log", logrus.DebugLevel, true)\<close> leaves it (echo on,
  every level enabled), a Panic-level \<open>Log\<close> call with message \<open>boom\<close>
  ends in the panic raised by the console logger: the console sink has written the line
  and the file sink has written nothing. A Fatal-level call ends in the exit of the
  console logger's \<open>Fatal\<close>, again with nothing written to the file sink. (For
  the other levels, and for all levels with echo off, \<open>Log_routing\<close> gives the
  routing the claim states.)
\<close>

theorem Log_panic_fatal_echo_skip_file:
  "initialized (exampleStore SWLogger) \<and> IsLog2STD (exampleStore SWLogger)
   \<and> isLevelEnabled (exampleStore SWLogger) PanicLevel
   \<and> isLevelEnabled (exampleStore SWLogger) FatalLevel
   \<and> fst (Log exampleRuntime (exampleStore SWLogger) PanicLevel ''main.go:7'' ''main'' [''boom''])
       = Panicked ''boom''
   \<and> map_option Out (STDLogger (snd
        (Log exampleRuntime (exampleStore SWLogger) PanicLevel ''main.go:7'' ''main'' [''boom''])))
       = Some [''2021-03-09 10:16:18.000|PANIC  |main(main.go:7)|boom\<newline>'']
   \<and> map_option Out (FileLogger (snd
        (Log exampleRuntime (exampleStore SWLogger) PanicLevel ''main.go:7'' ''main'' [''boom''])))
       = Some []
   \<and> fst (Log exampleRuntime (exampleStore SWLogger) FatalLevel ''main.go:7'' ''main'' [''boom''])
       = Exited 1
   \<and> map_option Out (STDLogger (snd
        (Log exampleRuntime (exampleStore SWLogger) FatalLevel ''main.go:7'' ''main'' [''boom''])))
       = Some [''2021-03-09 10:16:18.000|FATAL  |main(main.go:7)|boom\<newline>'']
   \<and> map_option Out (FileLogger (snd
        (Log exampleRuntime (exampleStore SWLogger) FatalLevel ''main.go:7'' ''main'' [''boom''])))
       = Some []"
  by code_simp

section \<open>Level gating\<close>

text \<open>
  Claim C2. On a logger whose \<open>LogLevel\<close> is the threshold,
  \<open>isLevelEnabled\<close> of a message level is true exactly when the numeric value of
  the threshold is at least that of the message level. The six levels of the enumeration
  have the values 0 to 5 in the order Panic, Fatal, Error, Warn, Info, Debug, and on them
  the test agrees with the ordering of the specification: the message level's priority is
  at or above the threshold's. Threshold Info does not enable Debug and does enable Warn.
\<close>

theorem isLevelEnabled_iff:
  "isLevelEnabled logger messageLevel = (unat messageLevel \<le> unat (LogLevel logger))
   \<and> map unat severityOrder = [0, 1, 2, 3, 4, 5]
   \<and> (\<forall>threshold \<in> set severityOrder. \<forall>level \<in> set severityOrder.
         isLevelEnabled (logger\<lparr>LogLevel := threshold\<rparr>) level
           = priorityAtOrAbove level threshold)
   \<and> \<not> isLevelEnabled (logger\<lparr>LogLevel := InfoLevel\<rparr>) DebugLevel
   \<and> isLevelEnabled (logger\<lparr>LogLevel := InfoLevel\<rparr>) WarnLevel"
  by (simp add: isLevelEnabled_def word_le_nat_alt severityOrder_def priorityAtOrAbove_def
      level_defs)

theorem isLevelEnabled_iff_witness:
  "InfoLevel \<in> set severityOrder \<and> ErrorLevel \<in> set severityOrder
   \<and> isLevelEnabled (zeroSWLog\<lparr>LogLevel := InfoLevel\<rparr>) ErrorLevel
   \<and> priorityAtOrAbove ErrorLevel InfoLevel"
  using isLevelEnabled_iff [of zeroSWLog ErrorLevel]
  by (simp add: severityOrder_def priorityAtOrAbove_def level_defs isLevelEnabled_def)

section \<open>A second Init\<close>

text \<open>
  Claim C3, as stated: a second \<open>Init\<close> is a no-op. On the global instance of
  the example, which is set up and has written nothing, a second \<open>Init\<close> leaves
  one line in the file sink: the debug message \<open>no need to setup, swlogger is already
  setup!\<close> that line 138 logs through the instance itself.
\<close>

theorem Init_again_not_noop:
  "isSetup (exampleStore SWLogger)
   \<and> map_option Out (FileLogger (exampleStore SWLogger)) = Some []
   \<and> map_option Out (FileLogger
        (snd (Init exampleRuntime exampleStore SWLogger ''/tmp/other.log'' InfoLevel False)
           SWLogger))
     = Some [''2021-03-09 10:16:18.000|DEBUG  |ExampleSWLog_Debug(examples/example_log_test.go:23)|no need to setup, swlogger is already setup!\<newline>'']"
  by code_simp

text \<open>
  Claim C3, amended. \<open>Init\<close> on an instance whose \<open>isSetup\<close> flag is set
  does exactly what the call \<open>logger.Debug("no need to setup, swlogger is already
  setup!")\<close> does, whatever its arguments. It does not reconfigure the instance: log
  file path, threshold, echo flag, skip count, set-up and raw flags are unchanged, each
  sink keeps its threshold, its formatter's kind, template and timestamp pattern, and
  everything it had written; no other instance changes. On an initialised instance the
  call returns and leaves the instance initialised.
\<close>

theorem Init_again_keeps_config:
  assumes "isSetup (st p)"
  shows "sameConfig (st p) (snd (Init rt st p logFile level log2STD) p)
    \<and> (\<forall>q. q \<noteq> p \<longrightarrow> snd (Init rt st p logFile level log2STD) q = st q)
    \<and> Init rt st p logFile level log2STD
        = atAddr (\<lambda>logger. Debug rt logger [''no need to setup, swlogger is already setup!''])
            st p
    \<and> (initialized (st p) \<longrightarrow>
          fst (Init rt st p logFile level log2STD) = Returned
          \<and> initialized (snd (Init rt st p logFile level log2STD) p))"
  using assms Debug_sameConfig [of "st p" rt "[''no need to setup, swlogger is already setup!'']"]
    Debug_initialized [of "st p" rt "[''no need to setup, swlogger is already setup!'']"]
  by (simp add: Init_def atAddr_def split_beta)

theorem Init_again_keeps_config_witness:
  "isSetup (exampleStore SWLogger)
   \<and> sameConfig (exampleStore SWLogger)
        (snd (Init exampleRuntime exampleStore SWLogger ''/tmp/other.log'' InfoLevel False)
           SWLogger)
   \<and> LogFile (snd (Init exampleRuntime exampleStore SWLogger ''/tmp/other.log'' InfoLevel False)
        SWLogger) = ''/tmp/test.log''
   \<and> LogLevel (snd (Init exampleRuntime exampleStore SWLogger ''/tmp/other.log'' InfoLevel False)
        SWLogger) = DebugLevel"
proof -
  let ?l = "snd (Init exampleRuntime exampleStore SWLogger ''/tmp/other.log'' InfoLevel False)
              SWLogger"
  have s: "isSetup (exampleStore SWLogger)" by (simp add: exampleStore_SWLogger)
  from s Init_again_keeps_config
    [of exampleStore SWLogger exampleRuntime "''/tmp/other.log''" InfoLevel False]
  have c: "sameConfig (exampleStore SWLogger) ?l" by blast
  then have "LogFile ?l = LogFile (exampleStore SWLogger)"
    and "LogLevel ?l = LogLevel (exampleStore SWLogger)"
    by (simp_all add: sameConfig_def)
  then have "LogFile ?l = ''/tmp/test.log''" and "LogLevel ?l = DebugLevel"
    by (simp_all add: exampleStore_SWLogger)
  with s c show ?thesis by blast
qed

section \<open>The default template on the record of the example\<close>

text \<open>
  Claim C4. For a formatter with the default template and the default timestamp pattern
  (both fields empty), caller site \<open>examples/example_log_test.go:23\<close> and caller
  function \<open>ExampleSWLog_Debug\<close>, and an entry of level Debug with message
  \<open>test debug\<close> whose time renders to the date \<open>2021-03-09\<close> (the part of
  the RFC3339 text before the \<open>T\<close>) and to the time of day \<open>10:16:18.000\<close>
  (the last blank-separated piece under \<open>time.StampMilli\<close>), \<open>Format\<close>
  returns exactly the line of the example and no error, whatever fields the entry carries.
\<close>

theorem Format_default_example:
  assumes "LogFormat f = []" and "TimestampFormat f = []"
    and "FileName f = ''examples/example_log_test.go:23''"
    and "FuncName f = ''ExampleSWLog_Debug''"
    and "Level entry = DebugLevel" and "Message entry = ''test debug''"
    and "Split (Time entry RFC3339) ''T'' = [''2021-03-09'', zone]"
    and "last (Split (Time entry StampMilli) '' '') = ''10:16:18.000''"
  shows "Format f entry =
    Inr ''2021-03-09 10:16:18.000|DEBUG  |ExampleSWLog_Debug(examples/example_log_test.go:23)|test debug\<newline>''"
proof -
  let ?ts = "Split (Time entry StampMilli) '' ''"
  have ne: "?ts \<noteq> []" by (simp add: Split_not_Nil)
  then have t: "?ts ! (length ?ts - 1) = ''10:16:18.000''"
    using assms(8) by (simp add: last_conv_nth)
  have lvl: "levelToken DebugLevel = ''DEBUG  ''" by code_simp
  have "Format f entry = Inr (replaceFields
     ''2021-03-09 10:16:18.000|DEBUG  |ExampleSWLog_Debug(examples/example_log_test.go:23)|test debug\<newline>''
     (Data entry))"
    using assms(1-7) ne t lvl
    by (simp add: Format_def Let_def defaultLogFormat_def defaultTimestampFormat_def
        Replace1_def)
  then show ?thesis by (simp add: replaceFields_no_percent)
qed

theorem Format_default_example_witness:
  "Split (Time exampleEntry RFC3339) ''T'' = [''2021-03-09'', ''10:16:18+08:00'']
   \<and> last (Split (Time exampleEntry StampMilli) '' '') = ''10:16:18.000''
   \<and> Format exampleFormatter exampleEntry =
    Inr ''2021-03-09 10:16:18.000|DEBUG  |ExampleSWLog_Debug(examples/example_log_test.go:23)|test debug\<newline>''"
  using Format_default_example [of exampleFormatter exampleEntry "''10:16:18+08:00''"]
  by (simp add: exampleFormatter_def exampleEntry_def exampleTime_date exampleTime_time)

section \<open>The thresholds of the sinks after Init\<close>

text \<open>
  Claim C5. \<open>Init("/tmp/app.log", logrus.InfoLevel, true)\<close> on a fresh instance
  that is not the global one, while the global one is still the zero value: the call
  returns, the file sink's threshold is Info, and the console sink's threshold is Panic,
  the \<open>LogLevel\<close> of the global instance that line 203 reads. (For the global
  instance itself \<open>Init_establishes\<close> gives both thresholds equal to the
  argument.)
\<close>

theorem Init_instance_console_level:
  "fst (Init exampleRuntime zeroStore 1 ''/tmp/app.log'' InfoLevel True) = Returned
   \<and> map_option LoggerLevel
        (FileLogger (snd (Init exampleRuntime zeroStore 1 ''/tmp/app.log'' InfoLevel True) 1))
       = Some InfoLevel
   \<and> map_option LoggerLevel
        (STDLogger (snd (Init exampleRuntime zeroStore 1 ''/tmp/app.log'' InfoLevel True) 1))
       = Some PanicLevel
   \<and> PanicLevel \<noteq> InfoLevel"
  by (simp add: Init_def zeroStore_def zeroSWLog_def exampleRuntime_def SWLogger_def Let_def
      level_defs)

section \<open>Logging before Init\<close>

text \<open>
  Claim C6. On an instance whose \<open>isSetup\<close> flag is not set, \<open>Log\<close>,
  \<open>Logf\<close> and each of the twelve wrappers exit the process with status 1 and
  leave the instance as it was: nothing reaches either sink.
\<close>

theorem Log_before_Init:
  assumes "\<not> isSetup logger"
  shows "Log rt logger level filename funcname as = (Exited 1, logger)
    \<and> Logf rt logger level format filename funcname as = (Exited 1, logger)
    \<and> Debug rt logger as = (Exited 1, logger) \<and> Info rt logger as = (Exited 1, logger)
    \<and> Warn rt logger as = (Exited 1, logger) \<and> Error rt logger as = (Exited 1, logger)
    \<and> Fatal rt logger as = (Exited 1, logger) \<and> Panic rt logger as = (Exited 1, logger)
    \<and> Debugf rt logger format as = (Exited 1, logger)
    \<and> Infof rt logger format as = (Exited 1, logger)
    \<and> Warnf rt logger format as = (Exited 1, logger)
    \<and> Errorf rt logger format as = (Exited 1, logger)
    \<and> Fatalf rt logger format as = (Exited 1, logger)
    \<and> Panicf rt logger format as = (Exited 1, logger)"
  using assms
  by (simp add: Log_def Logf_def Debug_def Info_def Warn_def Error_def Fatal_def Panic_def
      Debugf_def Infof_def Warnf_def Errorf_def Fatalf_def Panicf_def split_beta)

theorem Log_before_Init_witness:
  "\<not> isSetup zeroSWLog
   \<and> Debug exampleRuntime zeroSWLog [''test debug''] = (Exited 1, zeroSWLog)
   \<and> Panicf exampleRuntime zeroSWLog ''%s test'' [''Panicf''] = (Exited 1, zeroSWLog)
   \<and> STDLogger zeroSWLog = None \<and> FileLogger zeroSWLog = None"
  using Log_before_Init [of zeroSWLog exampleRuntime]
  by (simp add: zeroSWLog_def)

section \<open>Raw console mode\<close>

text \<open>
  Claim C7. On an initialised instance \<open>SetRawSTDLogging(true)\<close> returns and
  touches the console logger only; the file logger is the same as before, with its
  template formatter. The raw formatter renders every entry as its message followed by a
  newline, whatever the level, the caller metadata and the template. A later
  \<open>Log\<close> call with echo on, at a level that the instance and the console logger
  enable, appends exactly the message and a newline to the console sink; with echo off it
  appends nothing there; and what it appends to the file sink is what the template
  formatter \<open>Format\<close> renders, with the caller metadata of the call.
\<close>

theorem raw_console_output:
  assumes "initialized logger"
    and "STDLogger logger = Some std" and "FileLogger logger = Some file"
    and "Formatter file = TemplateFormatter ff"
  shows "fst (SetRawSTDLogging logger True) = Returned
    \<and> initialized (snd (SetRawSTDLogging logger True))
    \<and> FileLogger (snd (SetRawSTDLogging logger True)) = Some file
    \<and> formatEntry (RawFormatter f) entry = Inr (Message entry @ ''\<newline>'')
    \<and> (IsLog2STD logger \<and> isLevelEnabled logger level \<and> Logger_IsLevelEnabled std level \<longrightarrow>
         map_option Out
           (STDLogger (snd (Log rt (snd (SetRawSTDLogging logger True)) level filename funcname as)))
         = Some (Out std @ [Sprint as @ ''\<newline>'']))
    \<and> (\<not> IsLog2STD logger \<longrightarrow>
         map_option Out
           (STDLogger (snd (Log rt (snd (SetRawSTDLogging logger True)) level filename funcname as)))
         = Some (Out std))
    \<and> (isLevelEnabled logger level \<and> Logger_IsLevelEnabled file level
         \<and> (\<not> IsLog2STD logger \<or> level \<noteq> PanicLevel \<and> level \<noteq> FatalLevel) \<longrightarrow>
         map_option Out
           (FileLogger (snd (Log rt (snd (SetRawSTDLogging logger True)) level filename funcname as)))
         = Some (case Format (ff\<lparr>FileName := filename, FuncName := funcname\<rparr>)
                        \<lparr>Data = [], Time = NowFile rt, Level = sinkLevel level,
                         Message = Sprint as\<rparr> of
                   Inl e \<Rightarrow> Out file
                 | Inr b \<Rightarrow> Out file @ [b]))"
proof -
  let ?raw0 = "RawFormatter \<lparr>STDLogFormat = [], STDFileName = [], STDFuncName = []\<rparr>"
  let ?std1 = "std\<lparr>Formatter := ?raw0\<rparr>"
  let ?l1 = "logger\<lparr>raw := True, STDLogger := Some ?std1\<rparr>"
  have set: "SetRawSTDLogging logger True = (Returned, ?l1)"
    by (rule SetRawSTDLogging_True [OF assms(1,2)])
  have i1: "initialized ?l1"
    using SetRawSTDLogging_initialized [OF assms(1), of True] by (simp add: set)
  have s1: "STDLogger ?l1 = Some ?std1" and f1: "FileLogger ?l1 = Some file"
    using assms(3) by simp_all
  have en: "isLevelEnabled ?l1 level = isLevelEnabled logger level"
    by (simp add: isLevelEnabled_def)
  have echo: "IsLog2STD ?l1 = IsLog2STD logger" by simp
  note std = Log_STDLogger [OF i1 s1 f1, of rt level filename funcname as]
  note fil = Log_FileLogger [OF i1 s1 f1, of rt level filename funcname as]
  have console: "map_option Out (STDLogger (snd (Log rt ?l1 level filename funcname as)))
         = Some (Out std @ [Sprint as @ ''\<newline>''])"
    if "IsLog2STD logger" "isLevelEnabled logger level" "Logger_IsLevelEnabled std level"
  proof -
    have "Logger_IsLevelEnabled (decorated ?std1 filename funcname) level"
      using that(3) by (simp add: decorated_simps Logger_IsLevelEnabled_def)
    from Logger_Log_enabled_Out [OF this, of "NowSTD rt" as]
    have "Out (snd (sinkMethod level (decorated ?std1 filename funcname) (NowSTD rt) as))
        = Out std @ [Sprint as @ ''\<newline>'']"
      by (simp add: decorated_simps decorate_def formatEntry_raw)
    with that(1,2) show ?thesis unfolding std en echo by simp
  qed
  have quiet: "map_option Out (STDLogger (snd (Log rt ?l1 level filename funcname as)))
         = Some (Out std)"
    if "\<not> IsLog2STD logger"
    using that unfolding std en echo by (simp add: decorated_simps)
  have filepart: "map_option Out (FileLogger (snd (Log rt ?l1 level filename funcname as)))
         = Some (case Format (ff\<lparr>FileName := filename, FuncName := funcname\<rparr>)
                        \<lparr>Data = [], Time = NowFile rt, Level = sinkLevel level,
                         Message = Sprint as\<rparr> of
                   Inl e \<Rightarrow> Out file
                 | Inr b \<Rightarrow> Out file @ [b])"
    if "isLevelEnabled logger level" "Logger_IsLevelEnabled file level"
      "\<not> IsLog2STD logger \<or> level \<noteq> PanicLevel \<and> level \<noteq> FatalLevel"
  proof -
    have "Logger_IsLevelEnabled (decorated file filename funcname) level"
      using that(2) by (simp add: decorated_simps)
    from Logger_Log_enabled_Out [OF this, of "NowFile rt" as] assms(4)
    have "Out (snd (sinkMethod level (decorated file filename funcname) (NowFile rt) as))
        = (case Format (ff\<lparr>FileName := filename, FuncName := funcname\<rparr>)
                        \<lparr>Data = [], Time = NowFile rt, Level = sinkLevel level,
                         Message = Sprint as\<rparr> of
                   Inl e \<Rightarrow> Out file
                 | Inr b \<Rightarrow> Out file @ [b])"
      by (simp add: decorated_simps decorate_def formatEntry_def split: sum.splits)
    with that(1,3) show ?thesis unfolding fil en echo by auto
  qed
  show ?thesis
    using i1 f1 console quiet filepart by (simp add: set formatEntry_raw)
qed

theorem raw_console_output_witness:
  "initialized (exampleStore SWLogger)
   \<and> map_option Out (STDLogger (snd (Log exampleRuntime
          (snd (SetRawSTDLogging (exampleStore SWLogger) True))
          WarnLevel ''main.go:7'' ''main'' [''x''])))
       = Some [''x\<newline>'']
   \<and> map_option Out (FileLogger (snd (Log exampleRuntime
          (snd (SetRawSTDLogging (exampleStore SWLogger) True))
          WarnLevel ''main.go:7'' ''main'' [''x''])))
       = Some [''2021-03-09 10:16:18.000|WARNING|main(main.go:7)|x\<newline>'']"
proof -
  let ?lg = "\<lparr>Out = [], Formatter = TemplateFormatter emptyFormatter, LoggerLevel = DebugLevel\<rparr>"
  have a: "initialized (exampleStore SWLogger)" by (rule exampleStore_initialized)
  have b: "STDLogger (exampleStore SWLogger) = Some ?lg"
    and c: "FileLogger (exampleStore SWLogger) = Some ?lg"
    by (simp_all add: exampleStore_SWLogger)
  have d: "Formatter ?lg = TemplateFormatter emptyFormatter" by simp
  have en: "IsLog2STD (exampleStore SWLogger)" "isLevelEnabled (exampleStore SWLogger) WarnLevel"
    "Logger_IsLevelEnabled ?lg WarnLevel"
    by (simp_all add: exampleStore_SWLogger isLevelEnabled_def Logger_IsLevelEnabled_def
        level_defs)
  have fmt: "Format (emptyFormatter\<lparr>FileName := ''main.go:7'', FuncName := ''main''\<rparr>)
      \<lparr>Data = [], Time = NowFile exampleRuntime, Level = sinkLevel WarnLevel,
       Message = Sprint [''x'']\<rparr>
    = Inr ''2021-03-09 10:16:18.000|WARNING|main(main.go:7)|x\<newline>''"
    by code_simp
  from raw_console_output
    [OF a b c d, of _ _ WarnLevel exampleRuntime "''main.go:7''" "''main''" "[''x'']"] a en fmt
  show ?thesis by (simp add: Sprint_def level_defs)
qed

section \<open>The width of the level token\<close>

text \<open>
  Claim C8. For every level, the text that \<open>Format\<close> puts in place of
  \<open>%lvl%\<close> is exactly 7 characters wide: the upper-cased name of the level followed
  by as many blanks as the name is short of 7. For the six levels of the enumeration the
  tokens are listed; the name of \<open>WarnLevel\<close> is \<open>warning\<close>, which fills the
  width by itself. With the template \<open>%lvl%\<close> the token is the whole output of
  \<open>Format\<close>, whenever the date split succeeds.
\<close>

theorem levelToken_width:
  "length (levelToken l) = 7
   \<and> levelToken l
       = ToUpper (Level_String l) @ replicate (7 - length (Level_String l)) CHR '' ''
   \<and> map levelToken severityOrder
       = [''PANIC  '', ''FATAL  '', ''ERROR  '', ''WARNING'', ''INFO   '', ''DEBUG  '']
   \<and> (length (Split (Time entry RFC3339) ''T'') = 2 \<longrightarrow>
        Format (f\<lparr>LogFormat := ''%lvl%''\<rparr>) (entry\<lparr>Level := l\<rparr>) = Inr (levelToken l))"
proof -
  have "map levelToken severityOrder
       = [''PANIC  '', ''FATAL  '', ''ERROR  '', ''WARNING'', ''INFO   '', ''DEBUG  '']"
    by code_simp
  moreover have "length (Split (Time entry RFC3339) ''T'') = 2 \<longrightarrow>
        Format (f\<lparr>LogFormat := ''%lvl%''\<rparr>) (entry\<lparr>Level := l\<rparr>) = Inr (levelToken l)"
    using Format_lvl_template [of "entry\<lparr>Level := l\<rparr>" f] by simp
  ultimately show ?thesis
    using levelToken_length [of l] levelToken_eq [of l] by blast
qed

theorem levelToken_width_witness:
  "length (Split (Time exampleEntry RFC3339) ''T'') = 2
   \<and> Format (exampleFormatter\<lparr>LogFormat := ''%lvl%''\<rparr>) (exampleEntry\<lparr>Level := InfoLevel\<rparr>)
       = Inr ''INFO   ''
   \<and> length ''INFO   '' = 7"
proof -
  have "levelToken InfoLevel = ''INFO   ''" by code_simp
  then show ?thesis
    using levelToken_width [of InfoLevel exampleEntry exampleFormatter]
    by (simp add: exampleEntry_def exampleTime_date)
qed

section \<open>SetLogLevel and GetLogLevel\<close>

text \<open>
  Claim C9. On the initialised global instance \<open>SetLogLevel(l)\<close> returns, and
  afterwards \<open>GetLogLevel()\<close> returns \<open>l\<close>, the recorded
  \<open>LogLevel\<close> and the file sink's threshold are \<open>l\<close>; the console
  sink's threshold is \<open>l\<close> when the echo flag is set, and the console logger is
  untouched when it is not.
\<close>

theorem SetLogLevel_GetLogLevel:
  assumes "initialized (st SWLogger)"
  shows "fst (SetLogLevel st l) = Returned
    \<and> GetLogLevel (snd (SetLogLevel st l)) = Inr l
    \<and> LogLevel (snd (SetLogLevel st l) SWLogger) = l
    \<and> map_option LoggerLevel (FileLogger (snd (SetLogLevel st l) SWLogger)) = Some l
    \<and> (if IsLog2STD (st SWLogger)
        then map_option LoggerLevel (STDLogger (snd (SetLogLevel st l) SWLogger)) = Some l
        else STDLogger (snd (SetLogLevel st l) SWLogger) = STDLogger (st SWLogger))"
  using assms
  by (auto simp: SetLogLevel_def GetLogLevel_def initialized_def Let_def
      split: option.splits)

theorem SetLogLevel_GetLogLevel_witness:
  "initialized ((exampleStore(SWLogger := (exampleStore SWLogger)\<lparr>IsLog2STD := False\<rparr>)) SWLogger)
   \<and> GetLogLevel (snd (SetLogLevel
          (exampleStore(SWLogger := (exampleStore SWLogger)\<lparr>IsLog2STD := False\<rparr>)) InfoLevel))
       = Inr InfoLevel
   \<and> map_option LoggerLevel (STDLogger (snd (SetLogLevel
          (exampleStore(SWLogger := (exampleStore SWLogger)\<lparr>IsLog2STD := False\<rparr>)) InfoLevel)
          SWLogger)) = Some DebugLevel"
  using SetLogLevel_GetLogLevel
    [of "exampleStore(SWLogger := (exampleStore SWLogger)\<lparr>IsLog2STD := False\<rparr>)" InfoLevel]
  by (simp add: exampleStore_SWLogger initialized_def)

section \<open>Format returns no error\<close>

text \<open>
  Claim C10. \<open>Format\<close> never takes its second failure branch: splitting at a blank
  yields at least one piece. It takes the first one exactly when the RFC3339 text of the
  entry's time does not hold exactly one \<open>T\<close>; the RFC3339 text of a Go time always
  does, so for every entry stamped with a Go time \<open>Format\<close> returns rendered bytes.
\<close>

theorem Format_never_fails:
  "Format f entry \<noteq> Inl SplitTimeError
   \<and> (Format f entry = Inl SplitDateError) = (count_list (Time entry RFC3339) CHR ''T'' \<noteq> 1)
   \<and> (\<exists>out. Format f (entry\<lparr>Time := goTime t other\<rparr>) = Inr out)"
proof -
  have "count_list (goTime t other RFC3339) CHR ''T'' = 1"
    by (simp add: goTime_def formatRFC3339_one_T)
  then have "\<exists>out. Format f (entry\<lparr>Time := goTime t other\<rparr>) = Inr out"
    by (simp add: Format_result)
  then show ?thesis
    using Format_time_branch [of f entry] Format_date_branch [of f entry] by blast
qed

end
